theory Spec2Isabelle
  imports Main "HOL-Library.Multiset" "HOL-Library.Sublist"
begin

section \<open>Splatoon 3 rotation tracker: the background worker's scheduling core\<close>

text \<open>
  A shallow embedding of \<^verbatim>\<open>background.js\<close> and \<^verbatim>\<open>salmonRun.js\<close>: the per-mode
  current/next selection, the feed validation, the refresh scheduler, the cache validity
  check, the notification differ and the fetch cycle that ties them together.

  Conventions of the embedding:
  \<^item> an instant is a number of milliseconds since the epoch, an \<open>int\<close>;
  \<^item> a time field of the feed is a JSON string or is absent: \<open>string option\<close>;
  \<^item> \<^verbatim>\<open>new Date(s).getTime()\<close> is a parameter \<open>gt\<close> of type \<open>string \<Rightarrow> int option\<close>,
    where \<open>None\<close> is \<^verbatim>\<open>NaN\<close> (the string does not parse); every theorem holds for every
    such function;
  \<^item> \<^verbatim>\<open>Date.prototype.toISOString\<close> is a parameter \<open>toISO\<close> of type \<open>int \<Rightarrow> string\<close>;
  \<^item> \<^verbatim>\<open>new Date()\<close> and \<^verbatim>\<open>Date.now()\<close> are a parameter \<open>now\<close>: the calls of one
    synchronous stretch of the code read one instant;
  \<^item> a field of the feed may be absent or \<^verbatim>\<open>null\<close> (\<open>option\<close>); an entry of a list may
    be \<^verbatim>\<open>null\<close> (\<open>option\<close>); a field that should hold a list may hold an array, a
    text, or a value that is neither (\<open>nodesField\<close>). That is every shape of the feed on
    which a loop, a \<^verbatim>\<open>.map\<close> or a property read of the code throws. Elsewhere a present
    field has the shape the feed documents: a time is a text, a rule has a name.
\<close>

subsection \<open>JavaScript values\<close>

type_synonym instant = int

type_synonym dateParser = "string \<Rightarrow> int option"

text \<open>Truthiness of a field that is a string or absent: \<^verbatim>\<open>undefined\<close> and \<^verbatim>\<open>""\<close> are falsy.\<close>

definition truthy :: "string option \<Rightarrow> bool" where
  "truthy v = (case v of None \<Rightarrow> False | Some s \<Rightarrow> s \<noteq> [])"

text \<open>\<^verbatim>\<open>v || d\<close> on such a field.\<close>

definition orElse :: "string option \<Rightarrow> string option \<Rightarrow> string option" where
  "orElse v d = (if truthy v then v else d)"

text \<open>\<^verbatim>\<open>new Date(v).getTime()\<close>: \<^verbatim>\<open>new Date(undefined)\<close> is an invalid date.\<close>

definition getTime :: "dateParser \<Rightarrow> string option \<Rightarrow> int option" where
  "getTime gt v = (case v of None \<Rightarrow> None | Some s \<Rightarrow> gt s)"

text \<open>Comparisons of numbers: every comparison with \<^verbatim>\<open>NaN\<close> is false.\<close>

definition numLe :: "int option \<Rightarrow> int option \<Rightarrow> bool" where
  "numLe a b = (case (a, b) of (Some x, Some y) \<Rightarrow> x \<le> y | _ \<Rightarrow> False)"

definition numLt :: "int option \<Rightarrow> int option \<Rightarrow> bool" where
  "numLt a b = (case (a, b) of (Some x, Some y) \<Rightarrow> x < y | _ \<Rightarrow> False)"

definition numGt :: "int option \<Rightarrow> int option \<Rightarrow> bool" where
  "numGt a b = numLt b a"

datatype jsError = TypeError

text \<open>
  The value of a field that should hold a list: falsy (\<^verbatim>\<open>undefined\<close>, \<^verbatim>\<open>null\<close>, \<open>0\<close>,
  \<^verbatim>\<open>false\<close>, \<^verbatim>\<open>""\<close>), an array, a non-empty text (not an array, yet iterable, and none
  of its characters has a property the loops read), or another truthy value (an object,
  a number, \<^verbatim>\<open>true\<close>: neither an array nor iterable).
\<close>

datatype 'a nodesField = NodesAbsent | NodesNotArray | NodesText | NodesArray "'a list"

definition isArray :: "'a nodesField \<Rightarrow> bool" where
  "isArray f = (case f of NodesArray _ \<Rightarrow> True | _ \<Rightarrow> False)"

definition truthyNodes :: "'a nodesField \<Rightarrow> bool" where
  "truthyNodes f = (f \<noteq> NodesAbsent)"

text \<open>
  \<^verbatim>\<open>for (const x of f)\<close> on a truthy value: one that is not iterable throws; the
  characters of a text are entries that every loop of the code skips, so a text counts
  as no entry.
\<close>

definition forOf :: "'a nodesField \<Rightarrow> jsError + 'a list" where
  "forOf f = (case f of NodesArray xs \<Rightarrow> Inr xs | NodesText \<Rightarrow> Inr [] | _ \<Rightarrow> Inl TypeError)"

text \<open>\<^verbatim>\<open>f || []\<close> followed by \<^verbatim>\<open>for ... of\<close>.\<close>

definition forOfOrEmpty :: "'a nodesField \<Rightarrow> jsError + 'a list" where
  "forOfOrEmpty f = (if truthyNodes f then forOf f else Inr [])"

text \<open>
  \<^verbatim>\<open>(f || []).map(g)\<close>: only an array has \<^verbatim>\<open>map\<close>; \<open>g\<close> is applied to the entries in
  order, and the first one on which it throws ends the call.
\<close>

fun mapEach :: "('a \<Rightarrow> jsError + 'b) \<Rightarrow> 'a list \<Rightarrow> jsError + 'b list" where
  "mapEach g [] = Inr []"
| "mapEach g (x # xs) =
     (case g x of
        Inl e \<Rightarrow> Inl e
      | Inr y \<Rightarrow> (case mapEach g xs of Inl e \<Rightarrow> Inl e | Inr ys \<Rightarrow> Inr (y # ys)))"

definition mapOrEmpty :: "('a \<Rightarrow> jsError + 'b) \<Rightarrow> 'a nodesField \<Rightarrow> jsError + 'b list" where
  "mapOrEmpty g f =
     (case f of
        NodesAbsent \<Rightarrow> Inr []
      | NodesArray xs \<Rightarrow> mapEach g xs
      | _ \<Rightarrow> Inl TypeError)"

subsection \<open>Time windows and the sort by start time\<close>

record window =
  startTime :: "string option"
  endTime :: "string option"

text \<open>
  \<^verbatim>\<open>[...nodes].sort((a, b) => new Date(a.startTime) - new Date(b.startTime))\<close>.
  \<^verbatim>\<open>Array.prototype.sort\<close> is stable, and a comparator result of \<^verbatim>\<open>NaN\<close> counts as
  \<open>0\<close>. The model is the stable insertion sort under that comparator: \<open>before k a b\<close> is
  \<^verbatim>\<open>comparator(a, b) < 0\<close>. Where every start time parses, this is the one order
  ECMAScript allows; where one does not, the comparator is inconsistent and ECMAScript
  leaves the order to the implementation, so a statement below that depends on the
  order says which order it is about.
\<close>

definition before :: "('a \<Rightarrow> int option) \<Rightarrow> 'a \<Rightarrow> 'a \<Rightarrow> bool" where
  "before k a b = numLt (k a) (k b)"

fun insertSorted :: "('a \<Rightarrow> int option) \<Rightarrow> 'a \<Rightarrow> 'a list \<Rightarrow> 'a list" where
  "insertSorted k x [] = [x]"
| "insertSorted k x (y # ys) =
     (if before k y x then y # insertSorted k x ys else x # y # ys)"

definition jsSort :: "('a \<Rightarrow> int option) \<Rightarrow> 'a list \<Rightarrow> 'a list" where
  "jsSort k xs = foldr (insertSorted k) xs []"

definition startMs :: "dateParser \<Rightarrow> 'a window_scheme \<Rightarrow> int option" where
  "startMs gt w = getTime gt (startTime w)"

definition endMs :: "dateParser \<Rightarrow> 'a window_scheme \<Rightarrow> int option" where
  "endMs gt w = getTime gt (endTime w)"

definition sortByStart :: "dateParser \<Rightarrow> 'a window_scheme list \<Rightarrow> 'a window_scheme list" where
  "sortByStart gt xs = jsSort (startMs gt) xs"

text \<open>
  The same sort on the nodes of the feed, of which some may be \<^verbatim>\<open>null\<close>. The comparator
  reads \<^verbatim>\<open>a.startTime\<close> and throws on \<^verbatim>\<open>null\<close>; it is called on every entry as soon as
  there are two entries, and not at all on a list of one.
\<close>

definition sortNodes ::
  "dateParser \<Rightarrow> 'a window_scheme option list \<Rightarrow> jsError + 'a window_scheme option list" where
  "sortNodes gt nodes =
     (if length nodes < 2 then Inr nodes
      else case those nodes of
             None \<Rightarrow> Inl TypeError
           | Some ns \<Rightarrow> Inr (map Some (sortByStart gt ns)))"

subsection \<open>Processed rotations\<close>

record item =
  itemName :: "string option"
  itemImage :: "string option"

text \<open>A rule object \<^verbatim>\<open>{ name }\<close>, given by its name.\<close>

datatype rule = Rule "string option"

definition unknownMode :: rule where
  "unknownMode = Rule (Some ''Unknown Mode'')"

record rotation = window +
  rule :: rule
  stages :: "item list"

record 'r modeState =
  current :: "'r option"
  nxt :: "'r option"

definition emptyState :: "'r modeState" where
  "emptyState = \<lparr>current = None, nxt = None\<rparr>"

subsection \<open>Feed nodes of the battle schedules\<close>

record rawItem =
  rawName :: "string option"
  rawImageUrl :: "string option"

record matchSetting =
  vsRule :: "rule option"
  vsStages :: "rawItem option nodesField"

record vsNode = window +
  regularMatchSetting :: "matchSetting option"
  xMatchSetting :: "matchSetting option"
  bankaraMatchSettings :: "matchSetting option list option"

datatype modeKey = Regular | Anarchy | Xbattle | Challenge | Salmon

text \<open>
  \<^verbatim>\<open>stage => ({ name: stage.name, image: stage.image?.url || null })\<close>: reading \<^verbatim>\<open>name\<close> of
  a \<^verbatim>\<open>null\<close> stage throws.
\<close>

definition mapStage :: "rawItem option \<Rightarrow> jsError + item" where
  "mapStage s =
     (case s of
        None \<Rightarrow> Inl TypeError
      | Some stage \<Rightarrow> Inr \<lparr>itemName = rawName stage, itemImage = orElse (rawImageUrl stage) None\<rparr>)"

text \<open>\<^verbatim>\<open>(setting.vsStages || []).map(...)\<close>\<close>

definition mapStages :: "rawItem option nodesField \<Rightarrow> jsError + item list" where
  "mapStages v = mapOrEmpty mapStage v"

definition ruleOr :: "rule option \<Rightarrow> rule \<Rightarrow> rule" where
  "ruleOr v d = (case v of None \<Rightarrow> d | Some r \<Rightarrow> r)"

text \<open>
  The body of the loop of \<^verbatim>\<open>findCurrentAndNext\<close> from \<^verbatim>\<open>let rule\<close> to \<^verbatim>\<open>processedNode\<close>; it
  throws where \<^verbatim>\<open>.map\<close> does.
\<close>

definition processNode :: "modeKey \<Rightarrow> vsNode \<Rightarrow> jsError + rotation" where
  "processNode mode node =
     (let setting =
            (if mode = Regular \<and> regularMatchSetting node \<noteq> None then regularMatchSetting node
             else if mode = Xbattle \<and> xMatchSetting node \<noteq> None then xMatchSetting node
             else None)
      in case setting of
           None \<Rightarrow>
             Inr \<lparr>startTime = startTime node, endTime = endTime node,
                  rule = unknownMode, stages = []\<rparr>
         | Some s \<Rightarrow>
             (case mapStages (vsStages s) of
                Inl e \<Rightarrow> Inl e
              | Inr sts \<Rightarrow>
                  Inr \<lparr>startTime = startTime node, endTime = endTime node,
                       rule = ruleOr (vsRule s) unknownMode, stages = sts\<rparr>))"

text \<open>
  The scan of \<^verbatim>\<open>findCurrentAndNext\<close> and of \<^verbatim>\<open>findCurrentAndNextAnarchy\<close>: the two loops
  differ only in how \<^verbatim>\<open>processedNode\<close> is built, which is the parameter \<open>proc\<close>.
  The accumulator is \<^verbatim>\<open>(current, next)\<close>. The body of the loop is inside a \<^verbatim>\<open>try\<close> whose
  \<^verbatim>\<open>catch\<close> only logs: a \<^verbatim>\<open>null\<close> node (reading its \<^verbatim>\<open>startTime\<close> throws) and a node
  whose processing throws are passed over.
\<close>

fun scanNodes ::
  "dateParser \<Rightarrow> ('a window_scheme \<Rightarrow> jsError + 'b window_scheme) \<Rightarrow> instant \<Rightarrow>
   'a window_scheme option list \<Rightarrow>
   'b window_scheme option \<times> 'b window_scheme option \<Rightarrow>
   'b window_scheme option \<times> 'b window_scheme option" where
  "scanNodes gt proc nowMs [] acc = acc"
| "scanNodes gt proc nowMs (entry # rest) (cur, next) =
     (case entry of
        None \<Rightarrow> scanNodes gt proc nowMs rest (cur, next)
      | Some node \<Rightarrow>
          (if \<not> truthy (startTime node) \<or> \<not> truthy (endTime node)
           then scanNodes gt proc nowMs rest (cur, next)
           else case proc node of
                  Inl e \<Rightarrow> scanNodes gt proc nowMs rest (cur, next)
                | Inr processedNode \<Rightarrow>
                    (if numLe (startMs gt node) (Some nowMs) \<and> numGt (endMs gt node) (Some nowMs)
                     then scanNodes gt proc nowMs rest (Some processedNode, next)
                     else if numGt (startMs gt node) (Some nowMs) \<and>
                             (case next of None \<Rightarrow> True
                              | Some n \<Rightarrow> numLt (startMs gt node) (startMs gt n))
                     then scanNodes gt proc nowMs rest (cur, Some processedNode)
                     else scanNodes gt proc nowMs rest (cur, next))))"

definition toState :: "'r option \<times> 'r option \<Rightarrow> 'r modeState" where
  "toState p = \<lparr>current = fst p, nxt = snd p\<rparr>"

definition findCurrentAndNext ::
  "dateParser \<Rightarrow> vsNode option list \<Rightarrow> instant \<Rightarrow> modeKey \<Rightarrow> jsError + rotation modeState" where
  "findCurrentAndNext gt nodes now mode =
     (if nodes = [] then Inr emptyState
      else case sortNodes gt nodes of
             Inl e \<Rightarrow> Inl e
           | Inr sortedNodes \<Rightarrow>
               Inr (toState (scanNodes gt (processNode mode) now sortedNodes (None, None))))"

subsection \<open>Anarchy: the Series and Open settings of one node\<close>

record subMode =
  subRule :: rule
  subStages :: "item list"

record anarchyRotation = rotation +
  series :: "subMode option"
  openMode :: "subMode option"

definition extractAnarchyMode :: "matchSetting option \<Rightarrow> jsError + subMode option" where
  "extractAnarchyMode setting =
     (case setting of
        None \<Rightarrow> Inr None
      | Some s \<Rightarrow>
          (case mapStages (vsStages s) of
             Inl e \<Rightarrow> Inl e
           | Inr sts \<Rightarrow> Inr (Some \<lparr>subRule = ruleOr (vsRule s) unknownMode, subStages = sts\<rparr>)))"

text \<open>\<^verbatim>\<open>node.bankaraMatchSettings?.[i]\<close>: absent when the list is, or when it is too short.\<close>

definition settingAt :: "matchSetting option list option \<Rightarrow> nat \<Rightarrow> matchSetting option" where
  "settingAt v i =
     (case v of None \<Rightarrow> None | Some xs \<Rightarrow> (if i < length xs then xs ! i else None))"

definition processAnarchyNode :: "vsNode \<Rightarrow> jsError + anarchyRotation" where
  "processAnarchyNode node =
     (case extractAnarchyMode (settingAt (bankaraMatchSettings node) 0) of
        Inl e \<Rightarrow> Inl e
      | Inr s \<Rightarrow>
          (case extractAnarchyMode (settingAt (bankaraMatchSettings node) 1) of
             Inl e \<Rightarrow> Inl e
           | Inr opn \<Rightarrow>
               Inr \<lparr>startTime = startTime node, endTime = endTime node,
                    rule = (case s of Some m \<Rightarrow> subRule m
                            | None \<Rightarrow> (case opn of Some m \<Rightarrow> subRule m | None \<Rightarrow> unknownMode)),
                    stages = (case s of Some m \<Rightarrow> subStages m
                              | None \<Rightarrow> (case opn of Some m \<Rightarrow> subStages m | None \<Rightarrow> [])),
                    series = s, openMode = opn\<rparr>))"

definition findCurrentAndNextAnarchy ::
  "dateParser \<Rightarrow> vsNode option list \<Rightarrow> instant \<Rightarrow> jsError + anarchyRotation modeState" where
  "findCurrentAndNextAnarchy gt nodes now =
     (if nodes = [] then Inr emptyState
      else case sortNodes gt nodes of
             Inl e \<Rightarrow> Inl e
           | Inr sortedNodes \<Rightarrow>
               Inr (toState (scanNodes gt processAnarchyNode now sortedNodes (None, None))))"

subsection \<open>Challenge events: one feed record, several time periods\<close>

record leagueMatchEvent =
  leagueEventName :: "string option"
  leagueEventDesc :: "string option"
  leagueEventRegulation :: "string option"

record leagueMatchSetting = matchSetting +
  leagueMatchEvent :: "leagueMatchEvent option"

record eventNode =
  leagueMatchSetting :: "leagueMatchSetting option"
  timePeriods :: "window option nodesField"

record eventRotation = rotation +
  eventName :: string
  eventDesc :: string
  regulation :: string

text \<open>\<^verbatim>\<open>v || 'text'\<close> where the result is used as a string.\<close>

definition strOr :: "string option \<Rightarrow> string \<Rightarrow> string" where
  "strOr v d = (case v of None \<Rightarrow> d | Some s \<Rightarrow> (if s = [] then d else s))"

text \<open>\<^verbatim>\<open>processedEvent\<close>, from the rule and the stages computed once per event.\<close>

definition processPeriod ::
  "rule \<Rightarrow> item list \<Rightarrow> leagueMatchEvent \<Rightarrow> window \<Rightarrow> eventRotation" where
  "processPeriod r sts eventInfo period =
     \<lparr>startTime = startTime period, endTime = endTime period,
      rule = r,
      stages = sts,
      eventName = strOr (leagueEventName eventInfo) ''Unknown Event'',
      eventDesc = strOr (leagueEventDesc eventInfo) [],
      regulation = strOr (leagueEventRegulation eventInfo) []\<rparr>"

text \<open>
  The inner loop of \<^verbatim>\<open>processEventSchedules\<close>, over the periods of one event. Unlike the
  battle scan, \<^verbatim>\<open>current\<close> is assigned only while it is still \<^verbatim>\<open>null\<close>, and nothing
  catches: a \<^verbatim>\<open>null\<close> period throws out of the function.
\<close>

fun scanPeriods ::
  "dateParser \<Rightarrow> (window \<Rightarrow> eventRotation) \<Rightarrow> instant \<Rightarrow> window option list \<Rightarrow>
   eventRotation option \<times> eventRotation option \<Rightarrow>
   jsError + eventRotation option \<times> eventRotation option" where
  "scanPeriods gt proc nowMs [] acc = Inr acc"
| "scanPeriods gt proc nowMs (entry # rest) (cur, next) =
     (case entry of
        None \<Rightarrow> Inl TypeError
      | Some period \<Rightarrow>
          (if \<not> truthy (startTime period) \<or> \<not> truthy (endTime period)
           then scanPeriods gt proc nowMs rest (cur, next)
           else if numLe (startMs gt period) (Some nowMs) \<and> numGt (endMs gt period) (Some nowMs) \<and>
                   cur = None
           then scanPeriods gt proc nowMs rest (Some (proc period), next)
           else if numGt (startMs gt period) (Some nowMs) \<and>
                   (case next of None \<Rightarrow> True | Some n \<Rightarrow> numLt (startMs gt period) (startMs gt n))
           then scanPeriods gt proc nowMs rest (cur, Some (proc period))
           else scanPeriods gt proc nowMs rest (cur, next)))"

text \<open>
  The outer loop, over the feed's events in feed order: nothing is sorted. A \<^verbatim>\<open>null\<close>
  event throws; so do, for an event that has a \<^verbatim>\<open>leagueMatchEvent\<close>, stages that cannot
  be mapped and periods that cannot be iterated.
\<close>

fun scanEvents ::
  "dateParser \<Rightarrow> instant \<Rightarrow> eventNode option list \<Rightarrow>
   eventRotation option \<times> eventRotation option \<Rightarrow>
   jsError + eventRotation option \<times> eventRotation option" where
  "scanEvents gt nowMs [] acc = Inr acc"
| "scanEvents gt nowMs (entry # rest) acc =
     (case entry of
        None \<Rightarrow> Inl TypeError
      | Some event \<Rightarrow>
          (case leagueMatchSetting event of
             None \<Rightarrow> scanEvents gt nowMs rest acc
           | Some setting \<Rightarrow>
               (case leagueMatchEvent setting of
                  None \<Rightarrow> scanEvents gt nowMs rest acc
                | Some eventInfo \<Rightarrow>
                    (case mapStages (vsStages setting) of
                       Inl e \<Rightarrow> Inl e
                     | Inr sts \<Rightarrow>
                         (case forOfOrEmpty (timePeriods event) of
                            Inl e \<Rightarrow> Inl e
                          | Inr periods \<Rightarrow>
                              (case scanPeriods gt
                                      (processPeriod (ruleOr (vsRule setting) unknownMode) sts
                                         eventInfo)
                                      nowMs periods acc of
                                 Inl e \<Rightarrow> Inl e
                               | Inr acc' \<Rightarrow> scanEvents gt nowMs rest acc'))))))"

definition processEventSchedules ::
  "dateParser \<Rightarrow> eventNode option nodesField \<Rightarrow> instant \<Rightarrow> jsError + eventRotation modeState" where
  "processEventSchedules gt nodes now =
     (case forOf nodes of
        Inl e \<Rightarrow> Inl e
      | Inr events \<Rightarrow>
          (case scanEvents gt now events (None, None) of
             Inl e \<Rightarrow> Inl e
           | Inr found \<Rightarrow> Inr (toState found)))"

subsection \<open>Salmon Run: \<^verbatim>\<open>salmonRun.js\<close>\<close>

record coopSetting =
  coopStage :: "rawItem option"
  weapons :: "rawItem option nodesField"
  boss :: "rawItem option"

record coopNode = window +
  setting :: "coopSetting option"

record coopGrouping =
  coopRegularSchedules :: "coopNode option nodesField option"
  bigRunSchedules :: "coopNode option nodesField option"

record salmonRotation = window +
  stage :: item
  salmonWeapons :: "item list"
  salmonBoss :: "string option"
  bossImage :: "string option"
  isBigRun :: bool

text \<open>\<^verbatim>\<open>key?.nodes\<close> on a schedule key that may be missing.\<close>

definition nodesOf :: "'a nodesField option \<Rightarrow> 'a nodesField" where
  "nodesOf key = (case key of None \<Rightarrow> NodesAbsent | Some f \<Rightarrow> f)"

definition rawNameOf :: "rawItem option \<Rightarrow> string option" where
  "rawNameOf v = (case v of None \<Rightarrow> None | Some x \<Rightarrow> rawName x)"

definition rawUrlOf :: "rawItem option \<Rightarrow> string option" where
  "rawUrlOf v = (case v of None \<Rightarrow> None | Some x \<Rightarrow> rawImageUrl x)"

text \<open>
  \<^verbatim>\<open>w => ({ name: w?.name || "Unknown Weapon", image: w?.image?.url || null })\<close>: a \<^verbatim>\<open>null\<close>
  weapon does not throw.
\<close>

definition mapWeapon :: "rawItem option \<Rightarrow> jsError + item" where
  "mapWeapon w = Inr \<lparr>itemName = Some (strOr (rawNameOf w) ''Unknown Weapon''),
                      itemImage = orElse (rawUrlOf w) None\<rparr>"

text \<open>
  The object pushed to \<^verbatim>\<open>allSchedules\<close> for one schedule; it throws where
  \<^verbatim>\<open>(setting?.weapons || []).map\<close> does.
\<close>

definition processSchedule :: "bool \<Rightarrow> coopNode \<Rightarrow> jsError + salmonRotation" where
  "processSchedule bigRun schedule =
     (let st = (case setting schedule of None \<Rightarrow> None | Some s \<Rightarrow> coopStage s);
          b = (case setting schedule of None \<Rightarrow> None | Some s \<Rightarrow> boss s)
      in case (case setting schedule of
                 None \<Rightarrow> Inr []
               | Some s \<Rightarrow> mapOrEmpty mapWeapon (weapons s)) of
           Inl e \<Rightarrow> Inl e
         | Inr ws \<Rightarrow>
             Inr \<lparr>startTime = startTime schedule, endTime = endTime schedule,
                  stage = \<lparr>itemName = Some (strOr (rawNameOf st) ''Unknown Stage''),
                           itemImage = orElse (rawUrlOf st) None\<rparr>,
                  salmonWeapons = ws,
                  salmonBoss = orElse (rawNameOf b) None,
                  bossImage = orElse (rawUrlOf b) None,
                  isBigRun = bigRun\<rparr>)"

text \<open>
  One of the two loops that fill \<^verbatim>\<open>allSchedules\<close>, as the list of what it pushes; a
  schedule may be \<^verbatim>\<open>null\<close>, and is then skipped.
\<close>

fun pushSchedules :: "bool \<Rightarrow> coopNode option list \<Rightarrow> jsError + salmonRotation list" where
  "pushSchedules bigRun [] = Inr []"
| "pushSchedules bigRun (s # rest) =
     (case s of
        None \<Rightarrow> pushSchedules bigRun rest
      | Some schedule \<Rightarrow>
          (if \<not> truthy (startTime schedule) \<or> \<not> truthy (endTime schedule)
           then pushSchedules bigRun rest
           else case processSchedule bigRun schedule of
                  Inl e \<Rightarrow> Inl e
                | Inr p \<Rightarrow>
                    (case pushSchedules bigRun rest of
                       Inl e \<Rightarrow> Inl e
                     | Inr ps \<Rightarrow> Inr (p # ps))))"

text \<open>The scan of the unified list; the second future schedule ends the loop.\<close>

fun scanSchedules ::
  "dateParser \<Rightarrow> instant \<Rightarrow> salmonRotation list \<Rightarrow>
   salmonRotation option \<times> salmonRotation option \<Rightarrow>
   salmonRotation option \<times> salmonRotation option" where
  "scanSchedules gt nowMs [] acc = acc"
| "scanSchedules gt nowMs (schedule # rest) (cur, next) =
     (if numLe (startMs gt schedule) (Some nowMs) \<and> numGt (endMs gt schedule) (Some nowMs)
      then scanSchedules gt nowMs rest (Some schedule, next)
      else if numGt (startMs gt schedule) (Some nowMs)
      then (if next = None then scanSchedules gt nowMs rest (cur, Some schedule)
            else (cur, next))
      else scanSchedules gt nowMs rest (cur, next))"

definition hours :: "int \<Rightarrow> int" where
  "hours h = h * 60 * 60 * 1000"

definition plainItem :: "string \<Rightarrow> item" where
  "plainItem n = \<lparr>itemName = Some n, itemImage = None\<rparr>"

definition createSalmonRunTestData :: "(int \<Rightarrow> string) \<Rightarrow> instant \<Rightarrow> salmonRotation modeState" where
  "createSalmonRunTestData toISO now =
     \<lparr>current = Some
        \<lparr>startTime = Some (toISO now), endTime = Some (toISO (now + hours 12)),
         stage = plainItem ''Gone Fission Hydroplant'',
         salmonWeapons = [plainItem ''Splattershot'', plainItem ''Splat Roller'',
                          plainItem ''E-liter 4K'', plainItem ''Splat Dualies''],
         salmonBoss = Some ''Cohozuna'', bossImage = None, isBigRun = False\<rparr>,
      nxt = Some
        \<lparr>startTime = Some (toISO (now + hours 36)), endTime = Some (toISO (now + hours 60)),
         stage = plainItem ''Spawning Grounds'',
         salmonWeapons = [plainItem (''N-ZAP '' @ [CHR 0x27] @ ''85''), plainItem ''Slosher'',
                          plainItem ''Heavy Splatling'', plainItem ''Tri-Stringer''],
         salmonBoss = Some ''Horrorboros'', bossImage = None, isBigRun = False\<rparr>\<rparr>"

text \<open>
  \<^verbatim>\<open>allSchedules\<close> before the sort: what the loop over the Big Run nodes pushes, then
  what the loop over the regular nodes pushes. Either \<^verbatim>\<open>nodes\<close> value is read through
  \<^verbatim>\<open>|| []\<close> and iterated; nothing catches.
\<close>

definition allSchedules :: "coopGrouping \<Rightarrow> jsError + salmonRotation list" where
  "allSchedules c =
     (case forOfOrEmpty (nodesOf (bigRunSchedules c)) of
        Inl e \<Rightarrow> Inl e
      | Inr bigRunNodes \<Rightarrow>
          (case pushSchedules True bigRunNodes of
             Inl e \<Rightarrow> Inl e
           | Inr big \<Rightarrow>
               (case forOfOrEmpty (nodesOf (coopRegularSchedules c)) of
                  Inl e \<Rightarrow> Inl e
                | Inr regularNodes \<Rightarrow>
                    (case pushSchedules False regularNodes of
                       Inl e \<Rightarrow> Inl e
                     | Inr reg \<Rightarrow> Inr (big @ reg)))))"

subsection \<open>Splatfest\<close>

text \<open>
  A team colour is an object of four floating-point numbers; its rendering as an
  \<^verbatim>\<open>rgba(...)\<close> text is a parameter \<open>css\<close> of the processor.
\<close>

typedecl colour

record rawTeam =
  rawTeamName :: "string option"
  rawTeamColor :: "colour option"
  rawTeamImageUrl :: "string option"

record team =
  teamName :: "string option"
  teamColor :: "string option"
  teamImage :: "string option"

record currentFest = window +
  festTitle :: "string option"
  festState :: "string option"
  festTeams :: "rawTeam option nodesField"

text \<open>Of \<^verbatim>\<open>festMatchSettings\<close> only the truthiness is read.\<close>

record festNode = window +
  festMatchSettings :: bool

record festival = window +
  title :: string
  state :: string
  teams :: "team list"

text \<open>The function mapped over the teams; reading \<^verbatim>\<open>teamName\<close> of a \<^verbatim>\<open>null\<close> team throws.\<close>

definition mapTeam :: "(colour \<Rightarrow> string) \<Rightarrow> rawTeam option \<Rightarrow> jsError + team" where
  "mapTeam css v =
     (case v of
        None \<Rightarrow> Inl TypeError
      | Some t \<Rightarrow>
          Inr \<lparr>teamName = rawTeamName t,
               teamColor = map_option css (rawTeamColor t),
               teamImage = orElse (rawTeamImageUrl t) None\<rparr>)"

text \<open>
  The loop over \<^verbatim>\<open>festNodes\<close>: the first node that qualifies is returned; a \<^verbatim>\<open>null\<close> node
  met before it throws.
\<close>

fun scanFest :: "dateParser \<Rightarrow> instant \<Rightarrow> festNode option list \<Rightarrow> jsError + festival option" where
  "scanFest gt now [] = Inr None"
| "scanFest gt now (entry # rest) =
     (case entry of
        None \<Rightarrow> Inl TypeError
      | Some node \<Rightarrow>
          (if festMatchSettings node \<and> numGt (startMs gt node) (Some now)
           then Inr (Some \<lparr>startTime = startTime node, endTime = endTime node,
                           title = ''Upcoming Splatfest'', state = ''SCHEDULED'', teams = []\<rparr>)
           else scanFest gt now rest))"

subsection \<open>The feed\<close>

record dataRoot =
  regularSchedules :: "vsNode option nodesField option"
  bankaraSchedules :: "vsNode option nodesField option"
  xSchedules :: "vsNode option nodesField option"
  eventSchedules :: "eventNode option nodesField option"
  coopGroupingSchedule :: "coopGrouping option"
  currentFest :: "currentFest option"
  festSchedules :: "festNode option nodesField option"

text \<open>The parsed response; \<open>data = None\<close> also stands for a response that is \<^verbatim>\<open>null\<close>.\<close>

record apiData =
  data :: "dataRoot option"

definition processSplatfestData ::
  "(colour \<Rightarrow> string) \<Rightarrow> dateParser \<Rightarrow> dataRoot \<Rightarrow> instant \<Rightarrow> jsError + festival option" where
  "processSplatfestData css gt apiDataRoot now =
     (case currentFest apiDataRoot of
        Some f \<Rightarrow>
          (case mapOrEmpty (mapTeam css) (festTeams f) of
             Inl e \<Rightarrow> Inl e
           | Inr ts \<Rightarrow>
               Inr (Some \<lparr>startTime = startTime f, endTime = endTime f,
                          title = strOr (festTitle f) ''Splatfest'',
                          state = strOr (festState f) ''ACTIVE'',
                          teams = ts\<rparr>))
      | None \<Rightarrow>
          (case forOfOrEmpty (nodesOf (festSchedules apiDataRoot)) of
             Inl e \<Rightarrow> Inl e
           | Inr festNodes \<Rightarrow> scanFest gt now festNodes))"

text \<open>
  \<^verbatim>\<open>processSalmonRunData\<close>. Nothing catches here: what throws while \<^verbatim>\<open>allSchedules\<close> is
  filled throws to the caller.
\<close>

definition processSalmonRunData ::
  "dateParser \<Rightarrow> (int \<Rightarrow> string) \<Rightarrow> apiData \<Rightarrow> instant \<Rightarrow> jsError + salmonRotation modeState" where
  "processSalmonRunData gt toISO d now =
     (case (case data d of None \<Rightarrow> None | Some r \<Rightarrow> coopGroupingSchedule r) of
        None \<Rightarrow> Inr (createSalmonRunTestData toISO now)
      | Some c \<Rightarrow>
          (case allSchedules c of
             Inl e \<Rightarrow> Inl e
           | Inr schedules \<Rightarrow>
               (let found = scanSchedules gt now (sortByStart gt schedules) (None, None)
                in if fst found = None \<and> snd found = None
                   then Inr (createSalmonRunTestData toISO now)
                   else Inr (toState found))))"

subsection \<open>Validation and the rotation processor\<close>

text \<open>\<^verbatim>\<open>d[key] && !Array.isArray(d[key].nodes)\<close> is the failure; \<open>keyOk\<close> is its negation.\<close>

definition keyOk :: "'a nodesField option \<Rightarrow> bool" where
  "keyOk key = (case key of None \<Rightarrow> True | Some f \<Rightarrow> isArray f)"

definition validateApiResponse :: "apiData \<Rightarrow> bool" where
  "validateApiResponse d =
     (case data d of
        None \<Rightarrow> False
      | Some r \<Rightarrow>
          (if \<not> keyOk (regularSchedules r) then False
           else if \<not> keyOk (bankaraSchedules r) then False
           else if \<not> keyOk (xSchedules r) then False
           else (case coopGroupingSchedule r of
                   None \<Rightarrow> True
                 | Some c \<Rightarrow>
                     (if \<not> keyOk (coopRegularSchedules c) then False
                      else if \<not> keyOk (bigRunSchedules c) then False
                      else True))))"

text \<open>
  The stored rotation object. Every key is optional: the processor's result has no
  \<^verbatim>\<open>salmon\<close>, the placeholder data has neither \<^verbatim>\<open>challenge\<close> nor \<^verbatim>\<open>splatfest\<close>, and the
  readers of a cached object guard every access with \<^verbatim>\<open>?.\<close>.
\<close>

record snapshot =
  regular :: "rotation modeState option"
  anarchy :: "anarchyRotation modeState option"
  xbattle :: "rotation modeState option"
  challenge :: "eventRotation modeState option"
  splatfest :: "festival option"
  salmon :: "salmonRotation modeState option"

text \<open>
  \<^verbatim>\<open>if (key?.nodes) result.mode = select(key.nodes)\<close>. After the validation a battle
  key's \<^verbatim>\<open>nodes\<close> is an array or the key is missing; on anything else the selector would
  return the empty state at \<^verbatim>\<open>!nodes?.length\<close>, or after a scan in which every entry is
  skipped.
\<close>

definition battleState ::
  "('a list \<Rightarrow> jsError + 'r modeState) \<Rightarrow> 'a nodesField option \<Rightarrow> jsError + 'r modeState" where
  "battleState select key =
     (case nodesOf key of NodesArray ns \<Rightarrow> select ns | _ \<Rightarrow> Inr emptyState)"

text \<open>
  \<^verbatim>\<open>processRotationData\<close>; \<open>None\<close> is the \<^verbatim>\<open>null\<close> it returns when the validation fails or
  when one of the five calls inside its \<^verbatim>\<open>try\<close> throws.
\<close>

definition processRotationData ::
  "(colour \<Rightarrow> string) \<Rightarrow> dateParser \<Rightarrow> apiData \<Rightarrow> instant \<Rightarrow> snapshot option" where
  "processRotationData css gt d now =
     (if \<not> validateApiResponse d then None
      else case data d of
        None \<Rightarrow> None
      | Some r \<Rightarrow>
          (case battleState (\<lambda>ns. findCurrentAndNext gt ns now Regular) (regularSchedules r) of
             Inl e \<Rightarrow> None
           | Inr reg \<Rightarrow>
          (case battleState (\<lambda>ns. findCurrentAndNextAnarchy gt ns now) (bankaraSchedules r) of
             Inl e \<Rightarrow> None
           | Inr anar \<Rightarrow>
          (case battleState (\<lambda>ns. findCurrentAndNext gt ns now Xbattle) (xSchedules r) of
             Inl e \<Rightarrow> None
           | Inr xb \<Rightarrow>
          (case (if truthyNodes (nodesOf (eventSchedules r))
                 then processEventSchedules gt (nodesOf (eventSchedules r)) now
                 else Inr emptyState) of
             Inl e \<Rightarrow> None
           | Inr ch \<Rightarrow>
          (case processSplatfestData css gt r now of
             Inl e \<Rightarrow> None
           | Inr fest \<Rightarrow>
               Some \<lparr>regular = Some reg,
                     anarchy = Some anar,
                     xbattle = Some xb,
                     challenge = Some ch,
                     splatfest = fest,
                     salmon = None\<rparr>))))))"

text \<open>\<^verbatim>\<open>createTestData\<close>: the placeholder for Regular, Anarchy and X Battle.\<close>

definition testRotation :: "string option \<Rightarrow> string option \<Rightarrow> string \<Rightarrow> string \<Rightarrow> string \<Rightarrow> rotation" where
  "testRotation s e r st1 st2 =
     \<lparr>startTime = s, endTime = e, rule = Rule (Some r),
      stages = [\<lparr>itemName = Some st1, itemImage = None\<rparr>,
                \<lparr>itemName = Some st2, itemImage = None\<rparr>]\<rparr>"

definition asAnarchy :: "rotation \<Rightarrow> anarchyRotation" where
  "asAnarchy r =
     \<lparr>startTime = startTime r, endTime = endTime r, rule = rule r, stages = stages r,
      series = None, openMode = None\<rparr>"

definition createTestData :: "(int \<Rightarrow> string) \<Rightarrow> instant \<Rightarrow> snapshot" where
  "createTestData toISO now =
     (let t0 = Some (toISO now);
          t2 = Some (toISO (now + hours 2));
          t4 = Some (toISO (now + hours 4))
      in \<lparr>regular = Some
            \<lparr>current = Some (testRotation t0 t2 ''Turf War'' ''Scorch Gorge'' ''Mahi-Mahi Resort''),
             nxt = Some (testRotation t2 t4 ''Turf War'' ''Hagglefish Market'' ''MakoMart'')\<rparr>,
          anarchy = Some
            \<lparr>current = Some (asAnarchy (testRotation t0 t2 ''Splat Zones''
                                ''Mincemeat Metalworks'' ''Undertow Spillway'')),
             nxt = Some (asAnarchy (testRotation t2 t4 ''Tower Control''
                                ''Hammerhead Bridge'' (''Museum d'' @ [CHR 0x27] @ ''Alfonsino'')))\<rparr>,
          xbattle = Some
            \<lparr>current = Some (testRotation t0 t2 ''Clam Blitz''
                                ''Inkblot Art Academy'' ''Sturgeon Shipyard''),
             nxt = Some (testRotation t2 t4 ''Rainmaker'' ''Eeltail Alley'' ''Wahoo World'')\<rparr>,
          challenge = None,
          splatfest = None,
          salmon = None\<rparr>)"

subsection \<open>The refresh scheduler\<close>

text \<open>
  \<^verbatim>\<open>chrome.alarms\<close>: at most one alarm per name, \<^verbatim>\<open>create\<close> replaces the alarm of that
  name, \<^verbatim>\<open>clear\<close> removes it.
\<close>

datatype alarmInfo = When int | DelayInMinutes nat

type_synonym alarms = "string \<rightharpoonup> alarmInfo"

definition REFRESH_INTERVAL :: nat where
  "REFRESH_INTERVAL = 30"

text \<open>\<^verbatim>\<open>rotationData?.[mode]?.current\<close> and \<^verbatim>\<open>rotationData?.[mode]?.next\<close>\<close>

definition currentOf :: "'r modeState option \<Rightarrow> 'r option" where
  "currentOf m = (case m of None \<Rightarrow> None | Some st \<Rightarrow> current st)"

definition nextOf :: "'r modeState option \<Rightarrow> 'r option" where
  "nextOf m = (case m of None \<Rightarrow> None | Some st \<Rightarrow> nxt st)"

text \<open>\<^verbatim>\<open>current?.endTime\<close> and \<^verbatim>\<open>next?.startTime\<close>\<close>

definition endTimeOf :: "'a window_scheme option \<Rightarrow> string option" where
  "endTimeOf c = (case c of None \<Rightarrow> None | Some r \<Rightarrow> endTime r)"

definition startTimeOf :: "'a window_scheme option \<Rightarrow> string option" where
  "startTimeOf c = (case c of None \<Rightarrow> None | Some r \<Rightarrow> startTime r)"

text \<open>
  The end times the scheduler's loop reads, in the order of its \<^verbatim>\<open>modes\<close> array:
  regular, anarchy, xbattle, challenge, salmon.
\<close>

definition scheduledEndTimes :: "snapshot \<Rightarrow> string option list" where
  "scheduledEndTimes rotationData =
     [endTimeOf (currentOf (regular rotationData)),
      endTimeOf (currentOf (anarchy rotationData)),
      endTimeOf (currentOf (xbattle rotationData)),
      endTimeOf (currentOf (challenge rotationData)),
      endTimeOf (currentOf (salmon rotationData))]"

text \<open>\<^verbatim>\<open>!nextRefreshTime\<close>: \<^verbatim>\<open>null\<close> and \<open>0\<close> are falsy.\<close>

definition falsyNum :: "int option \<Rightarrow> bool" where
  "falsyNum v = (v = None \<or> v = Some 0)"

text \<open>\<^verbatim>\<open>endTime + (1 * 60 * 1000)\<close>\<close>

definition refreshTimeOf :: "dateParser \<Rightarrow> string option \<Rightarrow> int option" where
  "refreshTimeOf gt e = map_option (\<lambda>t. t + 1 * 60 * 1000) (getTime gt e)"

fun refreshLoop :: "dateParser \<Rightarrow> instant \<Rightarrow> string option list \<Rightarrow> int option \<Rightarrow> int option" where
  "refreshLoop gt now [] nextRefreshTime = nextRefreshTime"
| "refreshLoop gt now (e # rest) nextRefreshTime =
     (if truthy e
      then (if numGt (refreshTimeOf gt e) (Some now) \<and>
               (falsyNum nextRefreshTime \<or> numLt (refreshTimeOf gt e) nextRefreshTime)
            then refreshLoop gt now rest (refreshTimeOf gt e)
            else refreshLoop gt now rest nextRefreshTime)
      else refreshLoop gt now rest nextRefreshTime)"

definition scheduleNextRefresh :: "dateParser \<Rightarrow> snapshot \<Rightarrow> instant \<Rightarrow> alarms \<Rightarrow> alarms" where
  "scheduleNextRefresh gt rotationData now al =
     (let nextRefreshTime = refreshLoop gt now (scheduledEndTimes rotationData) None;
          cleared = al(''smartRefresh'' := None)
      in case nextRefreshTime of
           None \<Rightarrow> cleared(''refreshRotations'' \<mapsto> DelayInMinutes REFRESH_INTERVAL)
         | Some t \<Rightarrow>
             (if t = 0 then cleared(''refreshRotations'' \<mapsto> DelayInMinutes REFRESH_INTERVAL)
              else cleared(''smartRefresh'' \<mapsto> When t)))"

subsection \<open>The cache validity check\<close>

text \<open>Both loops of \<^verbatim>\<open>isDataStillValid\<close> run over regular, anarchy, xbattle, salmon.\<close>

definition validityEndTimes :: "snapshot \<Rightarrow> string option list" where
  "validityEndTimes rotationData =
     [endTimeOf (currentOf (regular rotationData)),
      endTimeOf (currentOf (anarchy rotationData)),
      endTimeOf (currentOf (xbattle rotationData)),
      endTimeOf (currentOf (salmon rotationData))]"

definition validityStartTimes :: "snapshot \<Rightarrow> string option list" where
  "validityStartTimes rotationData =
     [startTimeOf (nextOf (regular rotationData)),
      startTimeOf (nextOf (anarchy rotationData)),
      startTimeOf (nextOf (xbattle rotationData)),
      startTimeOf (nextOf (salmon rotationData))]"

definition isDataStillValid :: "dateParser \<Rightarrow> snapshot \<Rightarrow> instant \<Rightarrow> bool" where
  "isDataStillValid gt rotationData now =
     (if list_ex (\<lambda>e. truthy e \<and> numGt (getTime gt e) (Some now)) (validityEndTimes rotationData)
      then True
      else if list_ex truthy (validityStartTimes rotationData) then True
      else False)"

subsection \<open>The notification differ\<close>

record settings =
  enableNotifications :: bool
  notifyRegular :: bool
  notifyAnarchy :: bool
  notifyXbattle :: bool
  notifySalmon :: bool

text \<open>
  A call of \<^verbatim>\<open>chrome.notifications.create\<close>; the type, the icon and the priority are
  constants of the source and are left out.
\<close>

record notification =
  notificationId :: string
  notificationTitle :: string
  notificationMessage :: string

definition isNewRotation :: "'a window_scheme option \<Rightarrow> 'b window_scheme option \<Rightarrow> bool" where
  "isNewRotation newCurrent oldCurrent =
     (case newCurrent of
        None \<Rightarrow> False
      | Some n \<Rightarrow> (case oldCurrent of None \<Rightarrow> True | Some old \<Rightarrow> startTime n \<noteq> startTime old))"

text \<open>A string or \<^verbatim>\<open>undefined\<close> inside a template literal.\<close>

definition templateText :: "string option \<Rightarrow> string" where
  "templateText v = (case v of None \<Rightarrow> ''undefined'' | Some s \<Rightarrow> s)"

text \<open>\<^verbatim>\<open>names.join(', ')\<close>, where an \<^verbatim>\<open>undefined\<close> element is printed as the empty string.\<close>

fun joinNames :: "string option list \<Rightarrow> string" where
  "joinNames [] = []"
| "joinNames [n] = (case n of None \<Rightarrow> [] | Some s \<Rightarrow> s)"
| "joinNames (n # rest) = (case n of None \<Rightarrow> [] | Some s \<Rightarrow> s) @ '', '' @ joinNames rest"

definition ruleName :: "rule \<Rightarrow> string option" where
  "ruleName r = (case r of Rule n \<Rightarrow> n)"

definition notificationIdOf :: "string \<Rightarrow> string option \<Rightarrow> string" where
  "notificationIdOf key start = ''rotation-'' @ key @ ''-'' @ templateText start"

text \<open>The body of the loop for a battle mode, and for Salmon Run.\<close>

definition notifyBattle ::
  "string \<Rightarrow> string \<Rightarrow> bool \<Rightarrow> 'a rotation_scheme option \<Rightarrow> 'b window_scheme option \<Rightarrow>
   notification list" where
  "notifyBattle key name enabled newCurrent oldCurrent =
     (case newCurrent of
        None \<Rightarrow> []
      | Some c \<Rightarrow>
          (if enabled \<and> isNewRotation newCurrent oldCurrent
           then [\<lparr>notificationId = notificationIdOf key (startTime c),
                  notificationTitle = ''New '' @ name @ '' Rotation!'',
                  notificationMessage =
                    ''Mode: '' @ strOr (ruleName (rule c)) ''N/A'' @ [CHR 0x0A] @
                    ''Stages: '' @ strOr (Some (joinNames (map itemName (stages c)))) ''N/A''\<rparr>]
           else []))"

definition notifySalmonRun ::
  "bool \<Rightarrow> salmonRotation option \<Rightarrow> 'b window_scheme option \<Rightarrow> notification list" where
  "notifySalmonRun enabled newCurrent oldCurrent =
     (case newCurrent of
        None \<Rightarrow> []
      | Some c \<Rightarrow>
          (if enabled \<and> isNewRotation newCurrent oldCurrent
           then [\<lparr>notificationId = notificationIdOf ''salmon'' (startTime c),
                  notificationTitle =
                    (if isBigRun c then ''BIG RUN IS HERE!'' else ''New Salmon Run Rotation!''),
                  notificationMessage = ''Stage: '' @ strOr (itemName (stage c)) ''N/A''\<rparr>]
           else []))"

text \<open>\<^verbatim>\<open>oldRotations?.[key]\<close> on the object read before the cycle, which may be \<^verbatim>\<open>null\<close>.\<close>

definition oldMode :: "(snapshot \<Rightarrow> 'r modeState option) \<Rightarrow> snapshot option \<Rightarrow> 'r modeState option" where
  "oldMode sel old = (case old of None \<Rightarrow> None | Some s \<Rightarrow> sel s)"

text \<open>
  \<^verbatim>\<open>sendRotationNotifications\<close>: the notifications created, in order. The loop runs over
  the four entries of its \<^verbatim>\<open>modes\<close> array.
\<close>

definition sendRotationNotifications ::
  "settings \<Rightarrow> snapshot \<Rightarrow> snapshot option \<Rightarrow> notification list" where
  "sendRotationNotifications st newRotations oldRotations =
     (if \<not> enableNotifications st then []
      else
        notifyBattle ''regular'' ''Regular'' (notifyRegular st)
          (currentOf (regular newRotations)) (currentOf (oldMode regular oldRotations)) @
        notifyBattle ''anarchy'' ''Anarchy'' (notifyAnarchy st)
          (currentOf (anarchy newRotations)) (currentOf (oldMode anarchy oldRotations)) @
        notifyBattle ''xbattle'' ''X Battle'' (notifyXbattle st)
          (currentOf (xbattle newRotations)) (currentOf (oldMode xbattle oldRotations)) @
        notifySalmonRun (notifySalmon st)
          (currentOf (salmon newRotations)) (currentOf (oldMode salmon oldRotations)))"

subsection \<open>The fetch cycle\<close>

text \<open>
  What the cycle reads and writes outside itself: the three keys of
  \<^verbatim>\<open>chrome.storage.local\<close>, the synced settings, the alarms, and the notifications created
  so far.
\<close>

record world =
  rotationData :: "snapshot option"
  lastUpdated :: "string option"
  isOffline :: "bool option"
  syncSettings :: settings
  alarmsOf :: alarms
  notifications :: "notification list"

text \<open>
  The outcome of \<^verbatim>\<open>fetch\<close> and \<^verbatim>\<open>response.json()\<close>: the request throws, or it answers with
  a status and a body that parses (\<open>Some\<close>) or does not (\<open>None\<close>).
\<close>

datatype fetched = NetworkError | Responded nat "apiData option"

definition responseOk :: "nat \<Rightarrow> bool" where
  "responseOk status = (200 \<le> status \<and> status \<le> 299)"

text \<open>
  The instants the cycle reads: while it processes the feed, when it schedules the next
  refresh, and in its \<^verbatim>\<open>catch\<close> block.
\<close>

record clock =
  atProcess :: instant
  atSchedule :: instant
  atCatch :: instant

text \<open>The \<^verbatim>\<open>catch\<close> block: stale-while-revalidate.\<close>

definition onFetchError :: "dateParser \<Rightarrow> instant \<Rightarrow> world \<Rightarrow> bool \<times> world" where
  "onFetchError gt now w =
     (case rotationData w of
        None \<Rightarrow> (False, w)
      | Some cached \<Rightarrow>
          (if isDataStillValid gt cached now
           then (True, w\<lparr>isOffline := Some True,
                          alarmsOf := (alarmsOf w)(''refreshRotations'' \<mapsto> DelayInMinutes 5)\<rparr>)
           else (False, w)))"

text \<open>
  The condition of the \<^verbatim>\<open>catch\<close> block on the world:
  \<^verbatim>\<open>cached.rotationData && isDataStillValid(cached.rotationData)\<close>.
\<close>

definition cacheUsable :: "dateParser \<Rightarrow> world \<Rightarrow> instant \<Rightarrow> bool" where
  "cacheUsable gt w now =
     (case rotationData w of None \<Rightarrow> False | Some cached \<Rightarrow> isDataStillValid gt cached now)"

text \<open>
  \<^verbatim>\<open>fetchAllData\<close>. The Salmon Run processor returns an object or throws, so the
  \<^verbatim>\<open>|| createSalmonRunTestData()\<close> after its call never applies; what it throws is
  caught by the cycle's own \<^verbatim>\<open>catch\<close>.
\<close>

definition fetchAllData ::
  "(colour \<Rightarrow> string) \<Rightarrow> dateParser \<Rightarrow> (int \<Rightarrow> string) \<Rightarrow> fetched \<Rightarrow> clock \<Rightarrow> world \<Rightarrow>
   bool \<times> world" where
  "fetchAllData css gt toISO response clk w =
     (let oldRotationData = rotationData w
      in case response of
           NetworkError \<Rightarrow> onFetchError gt (atCatch clk) w
         | Responded status body \<Rightarrow>
             (if \<not> responseOk status then onFetchError gt (atCatch clk) w
              else case body of
                None \<Rightarrow> onFetchError gt (atCatch clk) w
              | Some apiData \<Rightarrow>
                  (let battleData =
                         (case processRotationData css gt apiData (atProcess clk) of
                            None \<Rightarrow> createTestData toISO (atProcess clk)
                          | Some b \<Rightarrow> b)
                   in case processSalmonRunData gt toISO apiData (atProcess clk) of
                        Inl e \<Rightarrow> onFetchError gt (atCatch clk) w
                      | Inr salmonData \<Rightarrow>
                          (let newRotationData = battleData\<lparr>salmon := Some salmonData\<rparr>
                           in (True,
                               w\<lparr>rotationData := Some newRotationData,
                                 lastUpdated := Some (toISO (atProcess clk)),
                                 isOffline := Some False,
                                 alarmsOf := scheduleNextRefresh gt newRotationData
                                               (atSchedule clk) (alarmsOf w),
                                 notifications := notifications w @
                                   sendRotationNotifications (syncSettings w)
                                     newRotationData oldRotationData\<rparr>)))))"

section \<open>The specification's words\<close>

text \<open>
  The predicates and selections that the theorems compare the code with. They follow the
  wording of the specification and are not part of the program.
\<close>

subsection \<open>Current and next\<close>

text \<open>
  The words of the specification, as predicates on windows: a window is considered when
  both of its times are present, it contains \<open>now\<close> when \<open>start \<le> now < end\<close>, and it
  starts after \<open>now\<close> when \<open>start > now\<close>.
\<close>

definition considered :: "'a window_scheme \<Rightarrow> bool" where
  "considered w = (truthy (startTime w) \<and> truthy (endTime w))"

definition containsNow :: "dateParser \<Rightarrow> instant \<Rightarrow> 'a window_scheme \<Rightarrow> bool" where
  "containsNow gt now w =
     (considered w \<and> numLe (startMs gt w) (Some now) \<and> numGt (endMs gt w) (Some now))"

definition startsAfter :: "dateParser \<Rightarrow> instant \<Rightarrow> 'a window_scheme \<Rightarrow> bool" where
  "startsAfter gt now w = (considered w \<and> numGt (startMs gt w) (Some now))"

text \<open>The last element of a list that satisfies \<open>P\<close>: last write wins.\<close>

definition lastWhere :: "('a \<Rightarrow> bool) \<Rightarrow> 'a list \<Rightarrow> 'a option" where
  "lastWhere P xs = List.find P (rev xs)"

text \<open>\<open>w\<close> starts after \<open>now\<close>, and no window of \<open>xs\<close> that starts after \<open>now\<close> starts earlier.\<close>

definition earliestAfter ::
  "dateParser \<Rightarrow> instant \<Rightarrow> 'a window_scheme list \<Rightarrow> 'a window_scheme \<Rightarrow> bool" where
  "earliestAfter gt now xs w =
     (startsAfter gt now w \<and>
      list_all (\<lambda>v. startsAfter gt now v \<longrightarrow> numLe (startMs gt w) (startMs gt v)) xs)"

text \<open>The entries of a list that are not \<^verbatim>\<open>null\<close>, and the entries of a field that is an array.\<close>

definition nonNull :: "'a option list \<Rightarrow> 'a list" where
  "nonNull xs = concat (map (\<lambda>x. case x of None \<Rightarrow> [] | Some v \<Rightarrow> [v]) xs)"

definition listOf :: "'a nodesField \<Rightarrow> 'a list" where
  "listOf f = (case f of NodesArray xs \<Rightarrow> xs | _ \<Rightarrow> [])"

text \<open>
  The candidate rotations of a battle schedule, in the order of the list: every node
  that has both times, normalised; a node whose normalisation fails is left out.
\<close>

definition candidates ::
  "('a window_scheme \<Rightarrow> jsError + 'b) \<Rightarrow> 'a window_scheme option list \<Rightarrow> 'b list" where
  "candidates proc nodes =
     concat (map (\<lambda>node. if considered node
                          then (case proc node of Inl e \<Rightarrow> [] | Inr p \<Rightarrow> [p]) else [])
               (nonNull nodes))"

text \<open>
  The candidate rotations of the event feed, in scan order: every period of every event
  that has a \<^verbatim>\<open>leagueMatchEvent\<close>, with the rule and the stages of the event; a stage
  keeps its name and the address of its image.
\<close>

definition renderStage :: "rawItem \<Rightarrow> item" where
  "renderStage s = \<lparr>itemName = rawName s, itemImage = orElse (rawImageUrl s) None\<rparr>"

definition mappedStages :: "rawItem option nodesField \<Rightarrow> item list" where
  "mappedStages v = map renderStage (nonNull (listOf v))"

definition eventCandidates :: "eventNode option list \<Rightarrow> eventRotation list" where
  "eventCandidates events =
     concat (map (\<lambda>event.
       (case leagueMatchSetting event of
          None \<Rightarrow> []
        | Some league \<Rightarrow>
            (case leagueMatchEvent league of
               None \<Rightarrow> []
             | Some eventInfo \<Rightarrow>
                 map (processPeriod (ruleOr (vsRule league) unknownMode)
                        (mappedStages (vsStages league)) eventInfo)
                   (nonNull (listOf (timePeriods event)))))) (nonNull events))"

text \<open>
  The selections the specification names: the last window of a scan order that contains
  \<open>now\<close>, the first one that does, and the first window of the scan order among those
  that start after \<open>now\<close> and start earliest.
\<close>

definition lastWins :: "dateParser \<Rightarrow> instant \<Rightarrow> 'a window_scheme list \<Rightarrow> 'a window_scheme option" where
  "lastWins gt now xs = lastWhere (containsNow gt now) xs"

definition firstWins :: "dateParser \<Rightarrow> instant \<Rightarrow> 'a window_scheme list \<Rightarrow> 'a window_scheme option" where
  "firstWins gt now xs = List.find (containsNow gt now) xs"

definition earliestNext :: "dateParser \<Rightarrow> instant \<Rightarrow> 'a window_scheme list \<Rightarrow> 'a window_scheme option" where
  "earliestNext gt now xs = List.find (earliestAfter gt now xs) xs"

text \<open>The two selections of IntervalIndex together, over a list in scan order.\<close>

definition lastWinsSelection ::
  "dateParser \<Rightarrow> instant \<Rightarrow> 'a window_scheme list \<Rightarrow> 'a window_scheme modeState" where
  "lastWinsSelection gt now xs = \<lparr>current = lastWins gt now xs, nxt = earliestNext gt now xs\<rparr>"

definition firstWinsSelection ::
  "dateParser \<Rightarrow> instant \<Rightarrow> 'a window_scheme list \<Rightarrow> 'a window_scheme modeState" where
  "firstWinsSelection gt now xs = \<lparr>current = firstWins gt now xs, nxt = earliestNext gt now xs\<rparr>"







text \<open>\<^verbatim>\<open>data?.data?.coopGroupingSchedule\<close>\<close>

definition coopOf :: "apiData \<Rightarrow> coopGrouping option" where
  "coopOf d = (case data d of None \<Rightarrow> None | Some r \<Rightarrow> coopGroupingSchedule r)"

subsection \<open>The scheduler's candidates and the validity of a snapshot\<close>

text \<open>The five modes of a snapshot, and a mode's \<^verbatim>\<open>current.endTime\<close> and \<^verbatim>\<open>next.startTime\<close>.\<close>

definition allModes :: "modeKey list" where
  "allModes = [Regular, Anarchy, Xbattle, Challenge, Salmon]"

definition currentEndOf :: "snapshot \<Rightarrow> modeKey \<Rightarrow> string option" where
  "currentEndOf snap m =
     (case m of
        Regular \<Rightarrow> endTimeOf (currentOf (regular snap))
      | Anarchy \<Rightarrow> endTimeOf (currentOf (anarchy snap))
      | Xbattle \<Rightarrow> endTimeOf (currentOf (xbattle snap))
      | Challenge \<Rightarrow> endTimeOf (currentOf (challenge snap))
      | Salmon \<Rightarrow> endTimeOf (currentOf (salmon snap)))"

definition nextStartOf :: "snapshot \<Rightarrow> modeKey \<Rightarrow> string option" where
  "nextStartOf snap m =
     (case m of
        Regular \<Rightarrow> startTimeOf (nextOf (regular snap))
      | Anarchy \<Rightarrow> startTimeOf (nextOf (anarchy snap))
      | Xbattle \<Rightarrow> startTimeOf (nextOf (xbattle snap))
      | Challenge \<Rightarrow> startTimeOf (nextOf (challenge snap))
      | Salmon \<Rightarrow> startTimeOf (nextOf (salmon snap)))"





text \<open>
  A mode keeps a snapshot valid: its current rotation ends after \<open>now\<close>, or it has a
  next rotation with a start time.
\<close>

definition validBy :: "dateParser \<Rightarrow> snapshot \<Rightarrow> instant \<Rightarrow> modeKey \<Rightarrow> bool" where
  "validBy gt snap now m =
     ((truthy (currentEndOf snap m) \<and> numGt (getTime gt (currentEndOf snap m)) (Some now)) \<or>
      truthy (nextStartOf snap m))"

text \<open>
  \<open>isStillValid\<close> of the specification: some mode's current rotation ends after \<open>now\<close>, or
  some mode has a next rotation with a start time.
\<close>

definition isStillValid :: "dateParser \<Rightarrow> snapshot \<Rightarrow> instant \<Rightarrow> bool" where
  "isStillValid gt snap now =
     (list_ex (\<lambda>m. truthy (currentEndOf snap m) \<and>
                   numGt (getTime gt (currentEndOf snap m)) (Some now)) allModes \<or>
      list_ex (\<lambda>m. truthy (nextStartOf snap m)) allModes)"

subsection \<open>The fetch cycle and the differ\<close>

text \<open>The fetch or the HTTP request failed, or the body did not parse.\<close>

definition fetchFailed :: "fetched \<Rightarrow> bool" where
  "fetchFailed response =
     (case response of NetworkError \<Rightarrow> True | Responded status body \<Rightarrow> \<not> responseOk status \<or> body = None)"

text \<open>A cached snapshot exists and is still valid as the specification defines it.\<close>

definition cacheValid :: "dateParser \<Rightarrow> world \<Rightarrow> instant \<Rightarrow> bool" where
  "cacheValid gt w now =
     (case rotationData w of None \<Rightarrow> False | Some cached \<Rightarrow> isStillValid gt cached now)"

text \<open>A notification of the list is one of the mode with this key.\<close>

definition firesFor :: "string \<Rightarrow> notification list \<Rightarrow> bool" where
  "firesFor key ns = list_ex (\<lambda>n. prefix (''rotation-'' @ key @ ''-'') (notificationId n)) ns"

text \<open>
  The new current exists, and the old current is absent or has another \<^verbatim>\<open>startTime\<close>.
\<close>

definition rotationChanged :: "'a window_scheme option \<Rightarrow> 'b window_scheme option \<Rightarrow> bool" where
  "rotationChanged newCurrent oldCurrent =
     (newCurrent \<noteq> None \<and> (oldCurrent = None \<or> startTimeOf newCurrent \<noteq> startTimeOf oldCurrent))"

text \<open>The ids of the four modes that the differ's \<^verbatim>\<open>modes\<close> array lists.\<close>

definition fromListedMode :: "notification \<Rightarrow> bool" where
  "fromListedMode n =
     (prefix ''rotation-regular-'' (notificationId n) \<or>
      prefix ''rotation-anarchy-'' (notificationId n) \<or>
      prefix ''rotation-xbattle-'' (notificationId n) \<or>
      prefix ''rotation-salmon-'' (notificationId n))"

subsection \<open>Shapes of the feed on which the code throws\<close>

definition isNull :: "'a option \<Rightarrow> bool" where
  "isNull v = (case v of None \<Rightarrow> True | Some _ \<Rightarrow> False)"

text \<open>
  A field that \<^verbatim>\<open>(f || []).map(g)\<close> throws on, for a \<open>g\<close> that reads a property of its
  argument: a truthy value that is not an array, or an array with a \<^verbatim>\<open>null\<close> entry.
\<close>

definition notMappable :: "'a option nodesField \<Rightarrow> bool" where
  "notMappable f =
     (case f of NodesAbsent \<Rightarrow> False | NodesArray xs \<Rightarrow> list_ex isNull xs | _ \<Rightarrow> True)"

text \<open>
  A field that \<^verbatim>\<open>for (const x of (f || []))\<close> throws on, for a body that reads a property
  of \<open>x\<close>: a truthy value that cannot be iterated, or an array with a \<^verbatim>\<open>null\<close> entry.
\<close>

definition notIterable :: "'a option nodesField \<Rightarrow> bool" where
  "notIterable f =
     (case f of NodesNotArray \<Rightarrow> True | NodesArray xs \<Rightarrow> list_ex isNull xs | _ \<Rightarrow> False)"

text \<open>A battle list that the sort throws on: two or more entries, one of them \<^verbatim>\<open>null\<close>.\<close>

definition sortThrows :: "'a option list \<Rightarrow> bool" where
  "sortThrows nodes = (2 \<le> length nodes \<and> list_ex isNull nodes)"

text \<open>
  An entry of the event nodes that the event selector throws on: \<^verbatim>\<open>null\<close>, or an event
  with a \<^verbatim>\<open>leagueMatchEvent\<close> whose stages cannot be mapped or whose periods cannot be
  iterated.
\<close>

definition eventThrows :: "eventNode option \<Rightarrow> bool" where
  "eventThrows entry =
     (case entry of
        None \<Rightarrow> True
      | Some event \<Rightarrow>
          (case leagueMatchSetting event of
             None \<Rightarrow> False
           | Some league \<Rightarrow>
               (case leagueMatchEvent league of
                  None \<Rightarrow> False
                | Some eventInfo \<Rightarrow>
                    notMappable (vsStages league) \<or> notIterable (timePeriods event))))"

text \<open>The event nodes that \<^verbatim>\<open>processEventSchedules\<close> throws on.\<close>

definition eventsThrow :: "eventNode option nodesField \<Rightarrow> bool" where
  "eventsThrow f =
     (case f of NodesArray es \<Rightarrow> list_ex eventThrows es | NodesText \<Rightarrow> False | _ \<Rightarrow> True)"

text \<open>
  A schedule of the coop section that the Salmon Run processor throws on: it has both
  times, and its weapons are a truthy value that is not an array.
\<close>

definition scheduleThrows :: "coopNode option \<Rightarrow> bool" where
  "scheduleThrows entry =
     (case entry of
        None \<Rightarrow> False
      | Some s \<Rightarrow>
          truthy (startTime s) \<and> truthy (endTime s) \<and>
          (case setting s of
             None \<Rightarrow> False
           | Some st \<Rightarrow>
               (case weapons st of NodesNotArray \<Rightarrow> True | NodesText \<Rightarrow> True | _ \<Rightarrow> False)))"

definition coopListThrows :: "coopNode option nodesField \<Rightarrow> bool" where
  "coopListThrows f =
     (case f of NodesNotArray \<Rightarrow> True | NodesArray ss \<Rightarrow> list_ex scheduleThrows ss | _ \<Rightarrow> False)"

definition salmonThrows :: "coopGrouping \<Rightarrow> bool" where
  "salmonThrows c =
     (coopListThrows (nodesOf (bigRunSchedules c)) \<or>
      coopListThrows (nodesOf (coopRegularSchedules c)))"

subsection \<open>Splatfest and Salmon Run\<close>

text \<open>A festival-schedule node with live settings that starts after \<open>now\<close>.\<close>

definition upcomingFest :: "dateParser \<Rightarrow> instant \<Rightarrow> festNode \<Rightarrow> bool" where
  "upcomingFest gt now node = (festMatchSettings node \<and> numGt (startMs gt node) (Some now))"

text \<open>The earliest such node: none of the others starts before it.\<close>

definition earliestUpcomingFest :: "dateParser \<Rightarrow> instant \<Rightarrow> festNode list \<Rightarrow> festNode option" where
  "earliestUpcomingFest gt now ns =
     List.find (\<lambda>n. upcomingFest gt now n \<and>
                     list_all (\<lambda>m. upcomingFest gt now m \<longrightarrow> numLe (startMs gt n) (startMs gt m)) ns)
       ns"

definition scheduledFest :: "festNode \<Rightarrow> festival" where
  "scheduledFest node =
     \<lparr>startTime = startTime node, endTime = endTime node,
      title = ''Upcoming Splatfest'', state = ''SCHEDULED'', teams = []\<rparr>"

text \<open>A team of the active festival, with its colour rendered.\<close>

definition renderTeam :: "(colour \<Rightarrow> string) \<Rightarrow> rawTeam \<Rightarrow> team" where
  "renderTeam css t =
     \<lparr>teamName = rawTeamName t,
      teamColor = map_option css (rawTeamColor t),
      teamImage = orElse (rawTeamImageUrl t) None\<rparr>"

definition activeFest :: "(colour \<Rightarrow> string) \<Rightarrow> currentFest \<Rightarrow> festival" where
  "activeFest css f =
     \<lparr>startTime = startTime f, endTime = endTime f,
      title = strOr (festTitle f) ''Splatfest'',
      state = strOr (festState f) ''ACTIVE'',
      teams = map (renderTeam css) (nonNull (listOf (festTeams f)))\<rparr>"

text \<open>
  A \<^verbatim>\<open>null\<close> entry of the festival nodes comes before the first upcoming node, or there
  is no upcoming node and some entry is \<^verbatim>\<open>null\<close>: the scan reaches it.
\<close>

definition nullBeforeUpcoming :: "dateParser \<Rightarrow> instant \<Rightarrow> festNode option list \<Rightarrow> bool" where
  "nullBeforeUpcoming gt now ns =
     list_ex isNull
       (takeWhile (\<lambda>entry. case entry of None \<Rightarrow> True | Some n \<Rightarrow> \<not> upcomingFest gt now n) ns)"

text \<open>The windows of the coop section: the entries of its two node lists.\<close>

definition coopWindows :: "coopGrouping \<Rightarrow> coopNode list" where
  "coopWindows c =
     nonNull (listOf (nodesOf (bigRunSchedules c))) @
     nonNull (listOf (nodesOf (coopRegularSchedules c)))"

text \<open>No window contains \<open>now\<close> and none starts after \<open>now\<close>.\<close>

definition nothingAhead :: "dateParser \<Rightarrow> instant \<Rightarrow> 'a window_scheme list \<Rightarrow> bool" where
  "nothingAhead gt now xs =
     (\<not> list_ex (\<lambda>s. containsNow gt now s \<or> startsAfter gt now s) xs)"

subsection \<open>Failure of the rotation processor\<close>

text \<open>A schedule key that is present without a list-shaped \<^verbatim>\<open>nodes\<close> collection.\<close>

definition withoutList :: "'a nodesField option \<Rightarrow> bool" where
  "withoutList key = (case key of None \<Rightarrow> False | Some f \<Rightarrow> \<not> isArray f)"

definition battleKeyWithoutList :: "dataRoot \<Rightarrow> bool" where
  "battleKeyWithoutList r =
     (withoutList (regularSchedules r) \<or> withoutList (bankaraSchedules r) \<or>
      withoutList (xSchedules r))"

definition coopKeyWithoutList :: "dataRoot \<Rightarrow> bool" where
  "coopKeyWithoutList r =
     (case coopGroupingSchedule r of
        None \<Rightarrow> False
      | Some c \<Rightarrow> withoutList (coopRegularSchedules c) \<or> withoutList (bigRunSchedules c))"

text \<open>The festival part of the feed that \<^verbatim>\<open>processSplatfestData\<close> throws on.\<close>

definition festThrows :: "dateParser \<Rightarrow> instant \<Rightarrow> dataRoot \<Rightarrow> bool" where
  "festThrows gt now r =
     (case currentFest r of
        Some f \<Rightarrow> notMappable (festTeams f)
      | None \<Rightarrow>
          (case nodesOf (festSchedules r) of
             NodesNotArray \<Rightarrow> True
           | NodesArray ns \<Rightarrow> nullBeforeUpcoming gt now ns
           | _ \<Rightarrow> False))"

text \<open>
  What throws inside the \<^verbatim>\<open>try\<close> of the processor: the sort of a battle list, the event
  selector, the festival extraction.
\<close>

definition throwsWhileProcessing :: "dateParser \<Rightarrow> instant \<Rightarrow> dataRoot \<Rightarrow> bool" where
  "throwsWhileProcessing gt now r =
     (sortThrows (listOf (nodesOf (regularSchedules r))) \<or>
      sortThrows (listOf (nodesOf (bankaraSchedules r))) \<or>
      sortThrows (listOf (nodesOf (xSchedules r))) \<or>
      (truthyNodes (nodesOf (eventSchedules r)) \<and> eventsThrow (nodesOf (eventSchedules r))) \<or>
      festThrows gt now r)"

text \<open>The failure condition as claim C6 states it, and as the code has it.\<close>

definition claimedFailure :: "apiData \<Rightarrow> bool" where
  "claimedFailure d = (case data d of None \<Rightarrow> True | Some r \<Rightarrow> battleKeyWithoutList r)"

definition processingFails :: "dateParser \<Rightarrow> instant \<Rightarrow> apiData \<Rightarrow> bool" where
  "processingFails gt now d =
     (case data d of
        None \<Rightarrow> True
      | Some r \<Rightarrow>
          battleKeyWithoutList r \<or> coopKeyWithoutList r \<or> throwsWhileProcessing gt now r)"

text \<open>The placeholder has a current and a next rotation for Regular, Anarchy and X only.\<close>

definition coversBattleModes :: "snapshot \<Rightarrow> bool" where
  "coversBattleModes s =
     (currentOf (regular s) \<noteq> None \<and> nextOf (regular s) \<noteq> None \<and>
      currentOf (anarchy s) \<noteq> None \<and> nextOf (anarchy s) \<noteq> None \<and>
      currentOf (xbattle s) \<noteq> None \<and> nextOf (xbattle s) \<noteq> None \<and>
      challenge s = None \<and> splatfest s = None \<and> salmon s = None)"

section \<open>Sample data\<close>

subsection \<open>Dates\<close>

text \<open>
  A date parser for the examples: the ISO texts of a few instants of 1 January 2024
  (UTC) and of one instant a minute before the epoch, with their milliseconds since the
  epoch; every other text is an invalid date.
\<close>

definition sampleDates :: "(string \<times> int) list" where
  "sampleDates =
     [(''2024-01-01T08:00:00.000Z'', 1704096000000),
      (''2024-01-01T10:00:00.000Z'', 1704103200000),
      (''2024-01-01T11:00:00.000Z'', 1704106800000),
      (''2024-01-01T12:00:00.000Z'', 1704110400000),
      (''2024-01-01T12:01:00.000Z'', 1704110460000),
      (''2024-01-01T12:05:00.000Z'', 1704110700000),
      (''2024-01-01T13:00:00.000Z'', 1704114000000),
      (''2024-01-01T14:00:00.000Z'', 1704117600000),
      (''2024-01-01T16:00:00.000Z'', 1704124800000),
      (''1969-12-31T23:59:00.000Z'', - 60000)]"

definition sampleParse :: dateParser where
  "sampleParse s = map_of sampleDates s"

definition sampleISO :: "int \<Rightarrow> string" where
  "sampleISO t = (case List.find (\<lambda>p. snd p = t) sampleDates of
                    None \<Rightarrow> ''1970-01-01T00:00:00.000Z'' | Some p \<Rightarrow> fst p)"

definition at8 :: "string option" where "at8 = Some ''2024-01-01T08:00:00.000Z''"
definition at10 :: "string option" where "at10 = Some ''2024-01-01T10:00:00.000Z''"
definition at11 :: "string option" where "at11 = Some ''2024-01-01T11:00:00.000Z''"
definition at12 :: "string option" where "at12 = Some ''2024-01-01T12:00:00.000Z''"
definition at1205 :: "string option" where "at1205 = Some ''2024-01-01T12:05:00.000Z''"
definition at13 :: "string option" where "at13 = Some ''2024-01-01T13:00:00.000Z''"
definition at14 :: "string option" where "at14 = Some ''2024-01-01T14:00:00.000Z''"
definition at16 :: "string option" where "at16 = Some ''2024-01-01T16:00:00.000Z''"


definition ms11 :: instant where "ms11 = 1704106800000"
definition ms1201 :: instant where "ms1201 = 1704110460000"

subsection \<open>Feeds\<close>

definition sampleNode :: "string option \<Rightarrow> string option \<Rightarrow> vsNode" where
  "sampleNode s e =
     \<lparr>startTime = s, endTime = e,
      regularMatchSetting =
        Some \<lparr>vsRule = Some (Rule (Some ''Turf War'')),
              vsStages = NodesArray [Some \<lparr>rawName = Some ''Scorch Gorge'', rawImageUrl = None\<rparr>]\<rparr>,
      xMatchSetting = None,
      bankaraMatchSettings = None\<rparr>"

text \<open>The rotation that the Regular selector makes of such a node.\<close>

definition sampleRotation :: "string option \<Rightarrow> string option \<Rightarrow> rotation" where
  "sampleRotation s e =
     \<lparr>startTime = s, endTime = e, rule = Rule (Some ''Turf War''),
      stages = [\<lparr>itemName = Some ''Scorch Gorge'', itemImage = None\<rparr>]\<rparr>"

text \<open>
  Four nodes out of order; at 11:00 the windows from 08:00 and from 10:00 both contain
  \<open>now\<close>, those from 12:05 and from 14:00 start later.
\<close>

definition sampleNodes :: "vsNode list" where
  "sampleNodes =
     [sampleNode at14 at16, sampleNode at10 at12, sampleNode at1205 at14, sampleNode at8 at1205]"

definition sampleSetting :: leagueMatchSetting where
  "sampleSetting =
     \<lparr>vsRule = Some (Rule (Some ''Rainmaker'')), vsStages = NodesAbsent,
      leagueMatchEvent =
        Some \<lparr>leagueEventName = Some ''Monthly Challenge'', leagueEventDesc = None,
              leagueEventRegulation = None\<rparr>\<rparr>"



definition sampleCoop :: "string option \<Rightarrow> string option \<Rightarrow> coopNode option" where
  "sampleCoop s e = Some \<lparr>startTime = s, endTime = e, setting = None\<rparr>"

text \<open>The Salmon Run rotation that the processor makes of such a schedule.\<close>

definition sampleShift :: "bool \<Rightarrow> string option \<Rightarrow> string option \<Rightarrow> salmonRotation" where
  "sampleShift bigRun s e =
     \<lparr>startTime = s, endTime = e,
      stage = \<lparr>itemName = Some ''Unknown Stage'', itemImage = None\<rparr>,
      salmonWeapons = [], salmonBoss = None, bossImage = None, isBigRun = bigRun\<rparr>"

definition emptyRoot :: dataRoot where
  "emptyRoot =
     \<lparr>regularSchedules = None, bankaraSchedules = None, xSchedules = None,
      eventSchedules = None, coopGroupingSchedule = None, currentFest = None,
      festSchedules = None\<rparr>"

text \<open>Two festival nodes with live settings, the later one first in the feed.\<close>

definition sampleFestNodes :: "festNode list" where
  "sampleFestNodes =
     [\<lparr>startTime = at14, endTime = at16, festMatchSettings = True\<rparr>,
      \<lparr>startTime = at1205, endTime = at14, festMatchSettings = True\<rparr>]"

definition festFeed :: dataRoot where
  "festFeed = emptyRoot\<lparr>festSchedules := Some (NodesArray (map Some sampleFestNodes))\<rparr>"

definition sampleCurrentFest :: currentFest where
  "sampleCurrentFest =
     \<lparr>startTime = at10, endTime = at16, festTitle = Some ''Spicy vs Sweet vs Sour'',
      festState = Some ''FIRST_HALF'', festTeams = NodesAbsent\<rparr>"

text \<open>A coop section whose only schedule ended at 10:00.\<close>

definition pastCoop :: coopGrouping where
  "pastCoop =
     \<lparr>coopRegularSchedules = Some (NodesArray [sampleCoop at8 at10]), bigRunSchedules = None\<rparr>"



text \<open>A coop section whose regular \<^verbatim>\<open>nodes\<close> value is an object, not an array.\<close>

definition brokenCoop :: coopGrouping where
  "brokenCoop = \<lparr>coopRegularSchedules = Some NodesNotArray, bigRunSchedules = None\<rparr>"

definition withCoop :: "coopGrouping \<Rightarrow> apiData" where
  "withCoop c = \<lparr>data = Some (emptyRoot\<lparr>coopGroupingSchedule := Some c\<rparr>)\<rparr>"

text \<open>A feed whose coop section has a \<^verbatim>\<open>regularSchedules\<close> key with no \<^verbatim>\<open>nodes\<close>.\<close>

definition coopKeyFeed :: apiData where
  "coopKeyFeed =
     \<lparr>data = Some (emptyRoot
        \<lparr>coopGroupingSchedule :=
           Some \<lparr>coopRegularSchedules = Some NodesAbsent, bigRunSchedules = None\<rparr>\<rparr>)\<rparr>"

text \<open>A feed with the Regular schedule of \<open>sampleNodes\<close> and nothing else.\<close>

definition sampleFeed :: apiData where
  "sampleFeed =
     \<lparr>data = Some (emptyRoot\<lparr>regularSchedules := Some (NodesArray (map Some sampleNodes))\<rparr>)\<rparr>"

text \<open>A feed whose X schedule has a \<^verbatim>\<open>nodes\<close> value that is not an array.\<close>

definition brokenFeed :: apiData where
  "brokenFeed = \<lparr>data = Some (emptyRoot\<lparr>xSchedules := Some NodesNotArray\<rparr>)\<rparr>"

text \<open>A feed whose Regular schedule is the array \<^verbatim>\<open>[null, null]\<close>.\<close>

definition nullNodesFeed :: apiData where
  "nullNodesFeed =
     \<lparr>data = Some (emptyRoot\<lparr>regularSchedules := Some (NodesArray [None, None])\<rparr>)\<rparr>"

text \<open>
  A feed with a Regular rotation from 10:00 to 12:00, a challenge with one period from
  10:00 to 12:05, and a Salmon Run schedule from 10:00 to 12:00.
\<close>

definition challengeFeed :: apiData where
  "challengeFeed =
     \<lparr>data = Some (emptyRoot
        \<lparr>regularSchedules := Some (NodesArray [Some (sampleNode at10 at12)]),
         eventSchedules :=
           Some (NodesArray
             [Some \<lparr>leagueMatchSetting = Some sampleSetting,
                    timePeriods = NodesArray [Some \<lparr>startTime = at10, endTime = at1205\<rparr>]\<rparr>]),
         coopGroupingSchedule :=
           Some \<lparr>coopRegularSchedules = Some (NodesArray [sampleCoop at10 at12]),
                 bigRunSchedules = None\<rparr>\<rparr>)\<rparr>"

subsection \<open>Snapshots and worlds\<close>

definition noRotations :: snapshot where
  "noRotations =
     \<lparr>regular = None, anarchy = None, xbattle = None, challenge = None,
      splatfest = None, salmon = None\<rparr>"

text \<open>Regular is current from 10:00 to 12:00, Anarchy from 10:00 to 12:05.\<close>

definition sampleSnapshot :: snapshot where
  "sampleSnapshot =
     noRotations
       \<lparr>regular := Some \<lparr>current = Some (testRotation at10 at12 ''Turf War''
                                           ''Scorch Gorge'' ''MakoMart''),
                          nxt = None\<rparr>,
        anarchy := Some \<lparr>current = Some (asAnarchy (testRotation at10 at1205 ''Splat Zones''
                                           ''Eeltail Alley'' ''Wahoo World'')),
                          nxt = None\<rparr>\<rparr>"

text \<open>Regular has moved on to the rotation from 12:00; Anarchy is as in \<open>sampleSnapshot\<close>.\<close>

definition laterSnapshot :: snapshot where
  "laterSnapshot =
     sampleSnapshot
       \<lparr>regular := Some \<lparr>current = Some (testRotation at12 at14 ''Turf War''
                                           ''Eeltail Alley'' ''Wahoo World''),
                          nxt = None\<rparr>\<rparr>"

definition sampleSalmon :: "string option \<Rightarrow> string option \<Rightarrow> salmonRotation" where
  "sampleSalmon s e =
     \<lparr>startTime = s, endTime = e, stage = plainItem ''Sockeye Station'',
      salmonWeapons = [plainItem ''Splattershot''], salmonBoss = None, bossImage = None,
      isBigRun = False\<rparr>"

text \<open>No mode is current; Salmon Run has a next rotation, from 13:00.\<close>

definition staleSnapshot :: snapshot where
  "staleSnapshot =
     noRotations\<lparr>salmon := Some \<lparr>current = None, nxt = Some (sampleSalmon at13 at14)\<rparr>\<rparr>"

text \<open>
  Regular and Salmon Run ended at 10:00 and have no next rotation; the challenge that is
  current runs from 10:00 to 12:05.
\<close>

definition sampleChallenge :: eventRotation where
  "sampleChallenge =
     \<lparr>startTime = at10, endTime = at1205, rule = Rule (Some ''Rainmaker''), stages = [],
      eventName = ''Monthly Challenge'', eventDesc = [], regulation = []\<rparr>"

definition challengeOnly :: snapshot where
  "challengeOnly =
     noRotations
       \<lparr>regular := Some \<lparr>current = Some (testRotation at8 at10 ''Turf War''
                                           ''Scorch Gorge'' ''MakoMart''),
                          nxt = None\<rparr>,
        challenge := Some \<lparr>current = Some sampleChallenge, nxt = None\<rparr>,
        salmon := Some \<lparr>current = Some (sampleSalmon at8 at10), nxt = None\<rparr>\<rparr>"

text \<open>
  What a cycle makes of \<open>challengeFeed\<close> at 11:00: Regular and Salmon Run are current
  until 12:00, the challenge is current until 12:05, nothing has a next rotation.
\<close>

definition challengeSnapshot :: snapshot where
  "challengeSnapshot =
     \<lparr>regular = Some \<lparr>current = Some (sampleRotation at10 at12), nxt = None\<rparr>,
      anarchy = Some \<lparr>current = None, nxt = None\<rparr>,
      xbattle = Some \<lparr>current = None, nxt = None\<rparr>,
      challenge = Some \<lparr>current = Some sampleChallenge, nxt = None\<rparr>,
      splatfest = None,
      salmon = Some \<lparr>current = Some (sampleShift False at10 at12), nxt = None\<rparr>\<rparr>"


definition allOn :: settings where
  "allOn =
     \<lparr>enableNotifications = True, notifyRegular = True, notifyAnarchy = True,
      notifyXbattle = True, notifySalmon = True\<rparr>"

definition freshWorld :: world where
  "freshWorld =
     \<lparr>rotationData = None, lastUpdated = None, isOffline = None, syncSettings = allOn,
      alarmsOf = Map.empty, notifications = []\<rparr>"

definition sampleClock :: clock where
  "sampleClock = \<lparr>atProcess = ms11, atSchedule = ms11, atCatch = ms11\<rparr>"

text \<open>The clock of a cycle that runs at 12:01.\<close>

definition laterClock :: clock where
  "laterClock = \<lparr>atProcess = ms1201, atSchedule = ms1201, atCatch = ms1201\<rparr>"

definition noCss :: "colour \<Rightarrow> string" where
  "noCss c = []"

subsection \<open>Three cycles in a row\<close>

text \<open>
  From the fresh world, all at 11:00: a cycle that succeeds, then one started by the
  popup's refresh message whose fetch throws, then one more that succeeds.
\<close>

definition afterSuccess :: world where
  "afterSuccess =
     snd (fetchAllData noCss sampleParse sampleISO (Responded 200 (Some sampleFeed))
            sampleClock freshWorld)"

definition afterFailure :: world where
  "afterFailure =
     snd (fetchAllData noCss sampleParse sampleISO NetworkError sampleClock afterSuccess)"

definition afterRetry :: world where
  "afterRetry =
     snd (fetchAllData noCss sampleParse sampleISO (Responded 200 (Some sampleFeed))
            sampleClock afterFailure)"

subsection \<open>A cycle at 11:00 and the alarm it sets\<close>

text \<open>
  From the fresh world, the cycle that receives \<open>challengeFeed\<close> at 11:00. It arms the
  smart timer for 12:01, and the cycle which that alarm starts is the one of
  \<open>laterClock\<close>.
\<close>

definition afterChallenge :: world where
  "afterChallenge =
     snd (fetchAllData noCss sampleParse sampleISO (Responded 200 (Some challengeFeed))
            sampleClock freshWorld)"


section \<open>Properties\<close>

subsection \<open>Selection of the earliest later window\<close>

lemma find_append_cases:
  "List.find P (xs @ ys) = (case List.find P xs of None \<Rightarrow> List.find P ys | Some x \<Rightarrow> Some x)"
  by (induction xs) auto

lemma startsAfter_iff:
  "startsAfter gt now w \<longleftrightarrow> considered w \<and> (\<exists>s. startMs gt w = Some s \<and> now < s)"
  by (auto simp: startsAfter_def numGt_def numLt_def split: option.splits)

lemma earliestAfter_iff:
  "earliestAfter gt now xs w \<longleftrightarrow>
     startsAfter gt now w \<and> (\<forall>v\<in>set xs. startsAfter gt now v \<longrightarrow> numLe (startMs gt w) (startMs gt v))"
  by (simp add: earliestAfter_def list_all_iff)

lemma exists_earliest:
  "\<exists>v\<in>set xs. startsAfter gt now v \<Longrightarrow> \<exists>w\<in>set xs. earliestAfter gt now xs w"
proof (induction xs)
  case Nil
  then show ?case by simp
next
  case (Cons x xs)
  show ?case
  proof (cases "\<exists>v\<in>set xs. startsAfter gt now v")
    case True
    then obtain w where w: "w \<in> set xs" "earliestAfter gt now xs w"
      using Cons.IH by blast
    show ?thesis
    proof (cases "startsAfter gt now x \<and> numLt (startMs gt x) (startMs gt w)")
      case True
      then have "earliestAfter gt now (x # xs) x"
        using w(2) unfolding earliestAfter_iff
        by (fastforce simp: numLe_def numLt_def startsAfter_iff split: option.splits)
      then show ?thesis by auto
    next
      case False
      then have "earliestAfter gt now (x # xs) w"
        using w(2) unfolding earliestAfter_iff
        by (fastforce simp: numLe_def numLt_def startsAfter_iff split: option.splits)
      then show ?thesis using w(1) by auto
    qed
  next
    case False
    with Cons.prems have sx: "startsAfter gt now x" by auto
    then have "earliestAfter gt now (x # xs) x"
      using False unfolding earliestAfter_iff
      by (auto simp: numLe_def startsAfter_iff)
    then show ?thesis by auto
  qed
qed

lemma find_earliest_None:
  "List.find (earliestAfter gt now xs) xs = None \<longleftrightarrow> \<not> (\<exists>v\<in>set xs. startsAfter gt now v)"
proof
  assume "List.find (earliestAfter gt now xs) xs = None"
  then have "\<not> (\<exists>w\<in>set xs. earliestAfter gt now xs w)"
    by (simp add: find_None_iff)
  then show "\<not> (\<exists>v\<in>set xs. startsAfter gt now v)"
    using exists_earliest by blast
next
  assume "\<not> (\<exists>v\<in>set xs. startsAfter gt now v)"
  then show "List.find (earliestAfter gt now xs) xs = None"
    by (auto simp: find_None_iff earliestAfter_iff)
qed

lemma find_cong_set:
  "(\<And>x. x \<in> set xs \<Longrightarrow> P x = Q x) \<Longrightarrow> List.find P xs = List.find Q xs"
  by (induction xs) auto

lemma find_earliest_snoc:
  "List.find (earliestAfter gt now (xs @ [x])) (xs @ [x]) =
     (if startsAfter gt now x \<and>
         (case List.find (earliestAfter gt now xs) xs of
            None \<Rightarrow> True | Some m \<Rightarrow> numLt (startMs gt x) (startMs gt m))
      then Some x
      else List.find (earliestAfter gt now xs) xs)"
proof (cases "List.find (earliestAfter gt now xs) xs")
  case None
  then have no: "\<not> (\<exists>v\<in>set xs. startsAfter gt now v)"
    by (simp add: find_earliest_None)
  then have "List.find (earliestAfter gt now (xs @ [x])) xs = None"
    by (auto simp: find_None_iff earliestAfter_iff)
  moreover have "earliestAfter gt now (xs @ [x]) x \<longleftrightarrow> startsAfter gt now x"
    using no by (auto simp: earliestAfter_iff numLe_def startsAfter_iff)
  ultimately show ?thesis using None by (simp add: find_append_cases)
next
  case (Some m)
  then have m: "m \<in> set xs" "earliestAfter gt now xs m"
    by (auto simp: find_Some_iff in_set_conv_nth)
  show ?thesis
  proof (cases "startsAfter gt now x \<and> numLt (startMs gt x) (startMs gt m)")
    case True
    have "\<not> earliestAfter gt now (xs @ [x]) v" if "v \<in> set xs" for v
    proof
      assume e: "earliestAfter gt now (xs @ [x]) v"
      then have "numLe (startMs gt v) (startMs gt x)" "startsAfter gt now v"
        using True by (auto simp: earliestAfter_iff)
      moreover have "numLe (startMs gt m) (startMs gt v)"
        using m(2) that \<open>startsAfter gt now v\<close> by (auto simp: earliestAfter_iff)
      ultimately show False using True
        by (auto simp: numLe_def numLt_def split: option.splits)
    qed
    then have "List.find (earliestAfter gt now (xs @ [x])) xs = None"
      by (auto simp: find_None_iff)
    moreover have "earliestAfter gt now (xs @ [x]) x"
      using True m(2) unfolding earliestAfter_iff
      by (fastforce simp: numLe_def numLt_def startsAfter_iff split: option.splits)
    ultimately show ?thesis using True Some by (simp add: find_append_cases)
  next
    case False
    have "earliestAfter gt now (xs @ [x]) v = earliestAfter gt now xs v" if "v \<in> set xs" for v
    proof -
      have "numLe (startMs gt v) (startMs gt x)"
        if "earliestAfter gt now xs v" "startsAfter gt now x"
      proof -
        have "numLe (startMs gt v) (startMs gt m)"
          using that(1) m by (auto simp: earliestAfter_iff)
        moreover have "\<not> numLt (startMs gt x) (startMs gt m)"
          using False that(2) by simp
        ultimately show ?thesis using that(2) m(2)
          by (auto simp: numLe_def numLt_def startsAfter_iff earliestAfter_iff split: option.splits)
      qed
      then show ?thesis by (auto simp: earliestAfter_iff)
    qed
    then have "List.find (earliestAfter gt now (xs @ [x])) xs = List.find (earliestAfter gt now xs) xs"
      by (rule find_cong_set)
    then show ?thesis using False Some by (auto simp: find_append_cases)
  qed
qed

lemma lastWhere_snoc:
  "lastWhere P (xs @ [x]) = (if P x then Some x else lastWhere P xs)"
  by (simp add: lastWhere_def)

lemma not_both: "containsNow gt now w \<Longrightarrow> \<not> startsAfter gt now w"
  by (auto simp: containsNow_def startsAfter_def numLe_def numLt_def numGt_def split: option.splits)
lemma find_snoc_first:
  "List.find P (xs @ [x]) = (if List.find P xs = None \<and> P x then Some x else List.find P xs)"
  by (simp add: find_append_cases split: option.splits)

lemma jsError_only: "(e :: jsError) = TypeError"
  by (cases e) simp

lemma isNull_simps: "isNull None" "\<not> isNull (Some x)"
  by (simp_all add: isNull_def)

lemma nonNull_append: "nonNull (xs @ ys) = nonNull xs @ nonNull ys"
  by (simp add: nonNull_def)

lemma nonNull_Cons:
  "nonNull (x # xs) = (case x of None \<Rightarrow> nonNull xs | Some v \<Rightarrow> v # nonNull xs)"
  by (simp add: nonNull_def split: option.splits)

lemma nonNull_Nil: "nonNull [] = []"
  by (simp add: nonNull_def)

lemma isNull_iff: "isNull v \<longleftrightarrow> v = None"
  by (cases v) (simp_all add: isNull_def)

lemma nonNull_map_Some: "nonNull (map Some xs) = xs"
  by (induction xs) (simp_all add: nonNull_def)

lemma candidates_append:
  "candidates proc (xs @ ys) = candidates proc xs @ candidates proc ys"
  by (simp add: candidates_def nonNull_append)

lemma candidates_one:
  "candidates proc [entry] =
     (case entry of
        None \<Rightarrow> []
      | Some node \<Rightarrow>
          (if considered node then (case proc node of Inl e \<Rightarrow> [] | Inr p \<Rightarrow> [p]) else []))"
  by (simp add: candidates_def nonNull_def split: option.splits)

text \<open>
  The invariant of the battle scan: after the nodes \<open>pre\<close>, the accumulator holds the
  last candidate of \<open>pre\<close> that contains \<open>now\<close> and the first of its earliest later
  candidates.
\<close>

lemma scanNodes_prefix:
  assumes times: "\<And>w p. proc w = Inr p \<Longrightarrow> startTime p = startTime w \<and> endTime p = endTime w"
  shows "scanNodes gt proc now xs
           (lastWhere (containsNow gt now) (candidates proc pre),
            List.find (earliestAfter gt now (candidates proc pre)) (candidates proc pre)) =
         (lastWhere (containsNow gt now) (candidates proc (pre @ xs)),
          List.find (earliestAfter gt now (candidates proc (pre @ xs))) (candidates proc (pre @ xs)))"
proof (induction xs arbitrary: pre)
  case Nil
  then show ?case by simp
next
  case (Cons x xs)
  let ?c = "candidates proc pre"
  have step: "scanNodes gt proc now (x # xs)
           (lastWhere (containsNow gt now) ?c, List.find (earliestAfter gt now ?c) ?c) =
        scanNodes gt proc now xs
           (lastWhere (containsNow gt now) (candidates proc (pre @ [x])),
            List.find (earliestAfter gt now (candidates proc (pre @ [x])))
              (candidates proc (pre @ [x])))"
  proof (cases x)
    case None
    then show ?thesis by (simp add: candidates_append candidates_one)
  next
    case (Some node)
    show ?thesis
    proof (cases "considered node")
      case False
      then show ?thesis
        using Some by (auto simp: candidates_append candidates_one considered_def)
    next
      case True
      then have tr: "truthy (startTime node)" "truthy (endTime node)"
        by (simp_all add: considered_def)
      show ?thesis
      proof (cases "proc node")
        case (Inl e)
        then show ?thesis
          using Some True tr by (simp add: candidates_append candidates_one)
      next
        case (Inr p)
        have st: "startMs gt p = startMs gt node" "endMs gt p = endMs gt node"
          "considered p"
          using times[OF Inr] True by (simp_all add: startMs_def endMs_def considered_def)
        have cs: "candidates proc (pre @ [x]) = ?c @ [p]"
          using Some True Inr by (simp add: candidates_append candidates_one)
        show ?thesis
          unfolding cs find_earliest_snoc[of gt now ?c p] lastWhere_snoc[of "containsNow gt now" ?c p]
          using not_both[of gt now p] Some tr Inr
          by (auto simp: containsNow_def startsAfter_def st split: option.splits)
      qed
    qed
  qed
  show ?case
    unfolding step using Cons.IH[of "pre @ [x]"] by simp
qed

text \<open>The invariant of the scan of one event's periods, where no period is \<^verbatim>\<open>null\<close>.\<close>

lemma scanPeriods_prefix:
  assumes "\<And>w. startTime (proc w) = startTime w" and "\<And>w. endTime (proc w) = endTime w"
  shows "scanPeriods gt proc now (map Some ps)
           (List.find (containsNow gt now) pre, List.find (earliestAfter gt now pre) pre) =
         Inr (List.find (containsNow gt now) (pre @ map proc ps),
              List.find (earliestAfter gt now (pre @ map proc ps)) (pre @ map proc ps))"
proof (induction ps arbitrary: pre)
  case Nil
  then show ?case by simp
next
  case (Cons p ps)
  have st: "startMs gt (proc w) = startMs gt w" "endMs gt (proc w) = endMs gt w" for w
    by (simp_all add: startMs_def endMs_def assms)
  have step: "scanPeriods gt proc now (map Some (p # ps))
           (List.find (containsNow gt now) pre, List.find (earliestAfter gt now pre) pre) =
        scanPeriods gt proc now (map Some ps)
           (List.find (containsNow gt now) (pre @ [proc p]),
            List.find (earliestAfter gt now (pre @ [proc p])) (pre @ [proc p]))"
    unfolding find_earliest_snoc[of gt now pre "proc p"]
      find_snoc_first[of "containsNow gt now" pre "proc p"]
    using not_both[of gt now "proc p"]
    by (auto simp: containsNow_def startsAfter_def considered_def st assms split: option.splits)
  show ?case
    unfolding step using Cons.IH[of "pre @ [proc p]"] by simp
qed

lemma scanPeriods_null:
  "list_ex isNull ps \<Longrightarrow> scanPeriods gt proc now ps acc = Inl TypeError"
proof (induction ps arbitrary: acc)
  case Nil
  then show ?case by simp
next
  case (Cons p ps)
  obtain c n where acc: "acc = (c, n)" by (cases acc)
  show ?case
  proof (cases p)
    case None
    then show ?thesis by (simp add: acc)
  next
    case (Some w)
    then have "list_ex isNull ps" using Cons.prems by (simp add: isNull_simps)
    then show ?thesis using Cons.IH Some by (simp add: acc)
  qed
qed

lemma no_null_map_Some: "\<not> list_ex isNull xs \<Longrightarrow> xs = map Some (nonNull xs)"
  by (induction xs) (auto simp: isNull_iff nonNull_Cons nonNull_Nil split: option.splits)

lemma mapEach_stages:
  "mapEach mapStage xs = (if list_ex isNull xs then Inl TypeError
                          else Inr (map renderStage (nonNull xs)))"
  by (induction xs)
     (auto simp: mapStage_def renderStage_def isNull_iff nonNull_Cons nonNull_Nil
      split: option.splits)

lemma mapStages_throws: "(\<exists>e. mapStages v = Inl e) \<longleftrightarrow> notMappable v"
  by (cases v) (simp_all add: mapStages_def mapOrEmpty_def notMappable_def mapEach_stages)

lemma mapStages_Inl: "mapStages v = Inl e \<longleftrightarrow> notMappable v"
  using mapStages_throws[of v] jsError_only by metis

lemma mapStages_mapped: "mapStages v = Inr sts \<Longrightarrow> mappedStages v = sts"
  by (cases v)
     (auto simp: mappedStages_def mapStages_def mapOrEmpty_def mapEach_stages listOf_def
      nonNull_Nil split: if_splits)

text \<open>What the periods of one event add to the accumulator, or that they throw.\<close>

lemma periods_of_event:
  "(case forOfOrEmpty f of
      Inl e \<Rightarrow> Inl e
    | Inr periods \<Rightarrow>
        scanPeriods gt (processPeriod r sts info) now periods
          (List.find (containsNow gt now) pre, List.find (earliestAfter gt now pre) pre)) =
   (if notIterable f then Inl TypeError
    else Inr (List.find (containsNow gt now)
                (pre @ map (processPeriod r sts info) (nonNull (listOf f))),
              List.find (earliestAfter gt now
                           (pre @ map (processPeriod r sts info) (nonNull (listOf f))))
                (pre @ map (processPeriod r sts info) (nonNull (listOf f)))))"
proof (cases f)
  case NodesAbsent
  then show ?thesis
    by (simp add: forOfOrEmpty_def truthyNodes_def notIterable_def listOf_def nonNull_def)
next
  case NodesNotArray
  then show ?thesis
    by (simp add: forOfOrEmpty_def truthyNodes_def forOf_def notIterable_def)
next
  case NodesText
  then show ?thesis
    by (simp add: forOfOrEmpty_def truthyNodes_def forOf_def notIterable_def listOf_def nonNull_def)
next
  case (NodesArray ps)
  show ?thesis
  proof (cases "list_ex isNull ps")
    case True
    then show ?thesis
      using NodesArray
      by (simp add: forOfOrEmpty_def truthyNodes_def forOf_def notIterable_def scanPeriods_null)
  next
    case False
    have "scanPeriods gt (processPeriod r sts info) now (map Some (nonNull ps))
            (List.find (containsNow gt now) pre, List.find (earliestAfter gt now pre) pre) =
          Inr (List.find (containsNow gt now) (pre @ map (processPeriod r sts info) (nonNull ps)),
               List.find (earliestAfter gt now (pre @ map (processPeriod r sts info) (nonNull ps)))
                 (pre @ map (processPeriod r sts info) (nonNull ps)))"
      by (rule scanPeriods_prefix) (simp_all add: processPeriod_def)
    then show ?thesis
      using NodesArray False no_null_map_Some[OF False]
      by (simp add: forOfOrEmpty_def truthyNodes_def forOf_def notIterable_def listOf_def)
  qed
qed

lemma eventCandidates_append:
  "eventCandidates (xs @ ys) = eventCandidates xs @ eventCandidates ys"
  by (simp add: eventCandidates_def nonNull_append)

text \<open>
  The invariant of the event scan: it throws when an entry to come is one on which the
  selector throws, and otherwise it ends with the first candidate that contains \<open>now\<close>
  and the first of the earliest later candidates.
\<close>

lemma scanEvents_prefix:
  "scanEvents gt now es
     (List.find (containsNow gt now) pre, List.find (earliestAfter gt now pre) pre) =
   (if list_ex eventThrows es then Inl TypeError
    else Inr (List.find (containsNow gt now) (pre @ eventCandidates es),
              List.find (earliestAfter gt now (pre @ eventCandidates es))
                (pre @ eventCandidates es)))"
proof (induction es arbitrary: pre)
  case Nil
  then show ?case by (simp add: eventCandidates_def nonNull_def)
next
  case (Cons entry es)
  have cands: "eventCandidates (entry # es) = eventCandidates [entry] @ eventCandidates es"
    using eventCandidates_append[of "[entry]" es] by simp
  show ?case
  proof (cases entry)
    case None
    then show ?thesis by (simp add: eventThrows_def)
  next
    case (Some e)
    note entry = Some
    show ?thesis
    proof (cases "leagueMatchSetting e")
      case None
      then show ?thesis
        using entry Cons.IH[of pre] by (simp add: eventCandidates_def nonNull_def eventThrows_def)
    next
      case (Some league)
      note lg = Some
      show ?thesis
      proof (cases "leagueMatchEvent league")
        case None
        then show ?thesis
          using entry lg Cons.IH[of pre]
          by (simp add: eventCandidates_def nonNull_def eventThrows_def)
      next
        case (Some info)
        show ?thesis
        proof (cases "mapStages (vsStages league)")
          case (Inl err)
          then have "eventThrows entry"
            using entry lg Some mapStages_Inl[of "vsStages league" err]
            by (simp add: eventThrows_def)
          then show ?thesis using entry lg Some Inl jsError_only[of err] by simp
        next
          case (Inr sts)
          then have nm: "\<not> notMappable (vsStages league)"
            using mapStages_throws[of "vsStages league"] by auto
          let ?proc = "processPeriod (ruleOr (vsRule league) unknownMode) sts info"
          let ?new = "map ?proc (nonNull (listOf (timePeriods e)))"
          have one: "eventCandidates [entry] = ?new"
            using entry lg Some mapStages_mapped[OF Inr]
            by (simp add: eventCandidates_def nonNull_def)
          have thr: "eventThrows entry = notIterable (timePeriods e)"
            using entry lg Some nm by (simp add: eventThrows_def)
          have unfold: "scanEvents gt now (entry # es)
                  (List.find (containsNow gt now) pre, List.find (earliestAfter gt now pre) pre) =
                (case (case forOfOrEmpty (timePeriods e) of
                         Inl err \<Rightarrow> Inl err
                       | Inr periods \<Rightarrow>
                           scanPeriods gt ?proc now periods
                             (List.find (containsNow gt now) pre,
                              List.find (earliestAfter gt now pre) pre)) of
                   Inl err \<Rightarrow> Inl err
                 | Inr acc' \<Rightarrow> scanEvents gt now es acc')"
            using entry lg Some Inr by (simp split: sum.splits)
          show ?thesis
          proof (cases "notIterable (timePeriods e)")
            case True
            then show ?thesis
              unfolding unfold periods_of_event using thr by simp
          next
            case False
            then show ?thesis
              unfolding unfold periods_of_event
              using thr Cons.IH[of "pre @ ?new"] by (simp add: cands one)
          qed
        qed
      qed
    qed
  qed
qed

subsection \<open>The sort\<close>

lemma set_insertSorted: "set (insertSorted k x ys) = insert x (set ys)"
  by (induction ys) auto

lemma set_jsSort: "set (jsSort k xs) = set xs"
  by (induction xs) (auto simp: jsSort_def set_insertSorted)



subsection \<open>The Salmon Run scan\<close>








text \<open>What the two loops push: the schedules with both times, in feed order.\<close>

lemma mapEach_weapons: "\<exists>ws. mapEach mapWeapon xs = Inr ws"
  by (induction xs) (auto simp: mapWeapon_def)

lemma processSchedule_throws:
  "(\<exists>e. processSchedule b s = Inl e) \<longleftrightarrow>
     (case setting s of
        None \<Rightarrow> False
      | Some st \<Rightarrow> (case weapons st of NodesNotArray \<Rightarrow> True | NodesText \<Rightarrow> True | _ \<Rightarrow> False))"
proof (cases "setting s")
  case None
  then show ?thesis by (simp add: processSchedule_def Let_def)
next
  case (Some st)
  show ?thesis
  proof (cases "weapons st")
    case (NodesArray xs)
    obtain ws where "mapEach mapWeapon xs = Inr ws" using mapEach_weapons by blast
    then show ?thesis
      using Some NodesArray by (simp add: processSchedule_def Let_def mapOrEmpty_def)
  qed (use Some in \<open>simp_all add: processSchedule_def Let_def mapOrEmpty_def\<close>)
qed

lemma processSchedule_times:
  "processSchedule b s = Inr p \<Longrightarrow> startTime p = startTime s \<and> endTime p = endTime s"
  by (auto simp: processSchedule_def Let_def split: sum.splits)

lemma pushSchedules_throws:
  "(\<exists>e. pushSchedules b ns = Inl e) \<longleftrightarrow> list_ex scheduleThrows ns"
proof (induction ns)
  case Nil
  then show ?case by simp
next
  case (Cons n ns)
  show ?case
  proof (cases n)
    case None
    then show ?thesis using Cons.IH by (simp add: scheduleThrows_def)
  next
    case (Some s)
    show ?thesis
    proof (cases "truthy (startTime s) \<and> truthy (endTime s)")
      case False
      then show ?thesis using Some Cons.IH by (auto simp: scheduleThrows_def)
    next
      case True
      show ?thesis
      proof (cases "processSchedule b s")
        case (Inl e)
        then have "scheduleThrows n"
          using processSchedule_throws[of b s] Some True
          by (auto simp: scheduleThrows_def)
        then show ?thesis using Some True Inl by simp
      next
        case (Inr p)
        then have "\<not> scheduleThrows n"
          using processSchedule_throws[of b s] Some True
          by (auto simp: scheduleThrows_def)
        then show ?thesis
          using Some True Inr Cons.IH by (auto split: sum.splits)
      qed
    qed
  qed
qed

lemma pushSchedules_windows:
  "pushSchedules b ns = Inr ps \<Longrightarrow>
     (\<forall>p\<in>set ps. considered p \<and>
        (\<exists>n\<in>set (nonNull ns). startTime p = startTime n \<and> endTime p = endTime n))"
proof (induction ns arbitrary: ps)
  case Nil
  then show ?case by simp
next
  case (Cons n ns)
  show ?case
  proof (cases n)
    case None
    then show ?thesis using Cons by (simp add: nonNull_Cons)
  next
    case (Some s)
    show ?thesis
    proof (cases "truthy (startTime s) \<and> truthy (endTime s)")
      case False
      then show ?thesis using Some Cons by (auto simp: nonNull_Cons)
    next
      case True
      from Cons.prems Some True obtain p rest where
        p: "processSchedule b s = Inr p" and rest: "pushSchedules b ns = Inr rest"
        and ps: "ps = p # rest"
        by (auto split: sum.splits)
      have "considered p"
        using processSchedule_times[OF p] True by (simp add: considered_def)
      then show ?thesis
        using Cons.IH[OF rest] processSchedule_times[OF p] Some ps
        by (auto simp: nonNull_Cons)
    qed
  qed
qed

lemma forOfOrEmpty_cases:
  "forOfOrEmpty f = (case f of NodesNotArray \<Rightarrow> Inl TypeError | _ \<Rightarrow> Inr (listOf f))"
  by (cases f) (simp_all add: forOfOrEmpty_def forOf_def truthyNodes_def listOf_def)

lemma allSchedules_throws: "(\<exists>e. allSchedules c = Inl e) \<longleftrightarrow> salmonThrows c"
proof -
  have one: "(\<exists>e. (case forOfOrEmpty f of Inl e \<Rightarrow> Inl e | Inr ns \<Rightarrow> pushSchedules b ns) = Inl e) \<longleftrightarrow>
               coopListThrows f" for f b
    using pushSchedules_throws[of b "listOf f"]
    by (cases f) (auto simp: forOfOrEmpty_cases coopListThrows_def listOf_def)
  show ?thesis
    using one[where f = "nodesOf (bigRunSchedules c)" and b = True]
      one[where f = "nodesOf (coopRegularSchedules c)" and b = False]
    by (auto simp: allSchedules_def salmonThrows_def split: sum.splits)
qed

lemma allSchedules_windows:
  assumes "allSchedules c = Inr schedules"
  shows "\<forall>p\<in>set schedules. considered p \<and>
           (\<exists>n\<in>set (coopWindows c). startTime p = startTime n \<and> endTime p = endTime n)"
proof -
  from assms obtain big reg where
    b: "pushSchedules True (listOf (nodesOf (bigRunSchedules c))) = Inr big" and
    r: "pushSchedules False (listOf (nodesOf (coopRegularSchedules c))) = Inr reg" and
    s: "schedules = big @ reg"
    by (auto simp: allSchedules_def forOfOrEmpty_cases split: sum.splits nodesField.splits)
  show ?thesis
    using pushSchedules_windows[OF b] pushSchedules_windows[OF r] s
    by (auto simp: coopWindows_def)
qed

subsection \<open>Current and next, per selector\<close>



lemma set_sortByStart: "set (sortByStart gt nodes) = set nodes"
  by (simp add: sortByStart_def set_jsSort)



lemma those_None: "those xs = None \<longleftrightarrow> list_ex isNull xs"
  by (induction xs) (auto simp: isNull_iff split: option.splits)



lemma sortNodes_throws: "(\<exists>e. sortNodes gt nodes = Inl e) \<longleftrightarrow> sortThrows nodes"
  using those_None[of nodes]
  by (auto simp: sortNodes_def sortThrows_def split: option.splits)



lemma scanNodes_spec:
  assumes "\<And>w p. proc w = Inr p \<Longrightarrow> startTime p = startTime w \<and> endTime p = endTime w"
  shows "toState (scanNodes gt proc now xs (None, None)) =
           lastWinsSelection gt now (candidates proc xs)"
proof -
  have e: "candidates proc [] = []" by (simp add: candidates_def nonNull_def)
  show ?thesis
    using scanNodes_prefix[of proc gt now xs "[]", OF assms]
    by (simp add: e toState_def lastWinsSelection_def lastWins_def earliestNext_def lastWhere_def)
qed

lemma processNode_times:
  "processNode mode w = Inr p \<Longrightarrow> startTime p = startTime w \<and> endTime p = endTime w"
  by (auto simp: processNode_def Let_def split: option.splits sum.splits if_splits)

lemma processAnarchyNode_times:
  "processAnarchyNode w = Inr p \<Longrightarrow> startTime p = startTime w \<and> endTime p = endTime w"
  by (auto simp: processAnarchyNode_def split: sum.splits)

lemma lastWinsSelection_Nil: "lastWinsSelection gt now [] = emptyState"
  by (simp add: lastWinsSelection_def lastWins_def earliestNext_def lastWhere_def emptyState_def)

lemma findCurrentAndNext_spec:
  "findCurrentAndNext gt nodes now mode =
     (case sortNodes gt nodes of
        Inl e \<Rightarrow> Inl e
      | Inr srt \<Rightarrow> Inr (lastWinsSelection gt now (candidates (processNode mode) srt)))"
proof (cases "nodes = []")
  case True
  then show ?thesis
    by (simp add: findCurrentAndNext_def sortNodes_def candidates_def nonNull_def
        lastWinsSelection_Nil)
next
  case False
  then show ?thesis
    using scanNodes_spec[of "processNode mode", OF processNode_times]
    by (simp add: findCurrentAndNext_def split: sum.splits)
qed

lemma findCurrentAndNextAnarchy_spec:
  "findCurrentAndNextAnarchy gt nodes now =
     (case sortNodes gt nodes of
        Inl e \<Rightarrow> Inl e
      | Inr srt \<Rightarrow> Inr (lastWinsSelection gt now (candidates processAnarchyNode srt)))"
proof (cases "nodes = []")
  case True
  then show ?thesis
    by (simp add: findCurrentAndNextAnarchy_def sortNodes_def candidates_def nonNull_def
        lastWinsSelection_Nil)
next
  case False
  then show ?thesis
    using scanNodes_spec[of processAnarchyNode, OF processAnarchyNode_times]
    by (simp add: findCurrentAndNextAnarchy_def split: sum.splits)
qed

lemma processEventSchedules_spec:
  "processEventSchedules gt events now =
     (if eventsThrow events then Inl TypeError
      else Inr (firstWinsSelection gt now (eventCandidates (listOf events))))"
proof (cases events)
  case (NodesArray es)
  then show ?thesis
    using scanEvents_prefix[of gt now es "[]"]
    by (simp add: processEventSchedules_def forOf_def eventsThrow_def listOf_def toState_def
        firstWinsSelection_def firstWins_def earliestNext_def)
qed (simp_all add: processEventSchedules_def forOf_def eventsThrow_def listOf_def toState_def
      firstWinsSelection_def firstWins_def earliestNext_def eventCandidates_def nonNull_def)














subsection \<open>The refresh scheduler picks the least future candidate\<close>









subsection \<open>The failure path of the fetch cycle\<close>

lemma fetchAllData_failed:
  "fetchFailed response \<Longrightarrow>
     fetchAllData css gt toISO response clk w = onFetchError gt (atCatch clk) w"
  by (auto simp: fetchFailed_def fetchAllData_def split: fetched.splits option.splits)

lemma catch_block:
  "onFetchError gt now w =
     (if cacheUsable gt w now
      then (True, w\<lparr>isOffline := Some True,
                     alarmsOf := (alarmsOf w)(''refreshRotations'' \<mapsto> DelayInMinutes 5)\<rparr>)
      else (False, w))"
  by (simp add: onFetchError_def cacheUsable_def split: option.splits)

text \<open>
  The check of the code against \<open>isStillValid\<close> of the specification: they differ by the
  challenge mode.
\<close>

lemma isStillValid_iff:
  "isStillValid gt snap now \<longleftrightarrow> isDataStillValid gt snap now \<or> validBy gt snap now Challenge"
  by (auto simp: isStillValid_def allModes_def isDataStillValid_def validityEndTimes_def
      validityStartTimes_def validBy_def currentEndOf_def nextStartOf_def)

lemma cacheValid_iff:
  "cacheValid gt w now \<longleftrightarrow>
     cacheUsable gt w now \<or>
     (case rotationData w of None \<Rightarrow> False | Some cached \<Rightarrow> validBy gt cached now Challenge)"
  by (simp add: cacheValid_def cacheUsable_def isStillValid_iff split: option.splits)

text \<open>
  Claim C3 against the code. When the fetch throws, the status is not a success or the
  body does not parse, the cycle is its \<^verbatim>\<open>catch\<close> block: where the code's own check
  accepts the cache it sets the offline flag, arms the \<^verbatim>\<open>refreshRotations\<close> timer with a
  delay of 5 minutes, changes nothing else and returns \<^verbatim>\<open>true\<close>; otherwise it returns
  \<^verbatim>\<open>false\<close> and changes nothing. A cache that the code's check accepts is valid as the
  specification defines it. A cache that is valid and that the code's check refuses is
  one that only the challenge mode keeps valid; for every other cache the cycle does
  what the claim says.
\<close>

theorem stale_while_revalidate:
  "(fetchFailed response \<longrightarrow>
      fetchAllData css gt toISO response clk w =
        (if cacheUsable gt w (atCatch clk)
         then (True, w\<lparr>isOffline := Some True,
                        alarmsOf := (alarmsOf w)(''refreshRotations'' \<mapsto> DelayInMinutes 5)\<rparr>)
         else (False, w))) \<and>
   (cacheUsable gt w now \<longrightarrow> cacheValid gt w now) \<and>
   ((cacheValid gt w now \<and> \<not> cacheUsable gt w now) =
      (case rotationData w of
         None \<Rightarrow> False
       | Some cached \<Rightarrow> \<not> isDataStillValid gt cached now \<and> validBy gt cached now Challenge)) \<and>
   (fetchFailed response \<and>
    (cacheValid gt w (atCatch clk) \<longrightarrow> cacheUsable gt w (atCatch clk)) \<longrightarrow>
      fetchAllData css gt toISO response clk w =
        (if cacheValid gt w (atCatch clk)
         then (True, w\<lparr>isOffline := Some True,
                        alarmsOf := (alarmsOf w)(''refreshRotations'' \<mapsto> DelayInMinutes 5)\<rparr>)
         else (False, w)))"
proof -
  have a: "fetchFailed response \<longrightarrow>
      fetchAllData css gt toISO response clk w =
        (if cacheUsable gt w (atCatch clk)
         then (True, w\<lparr>isOffline := Some True,
                        alarmsOf := (alarmsOf w)(''refreshRotations'' \<mapsto> DelayInMinutes 5)\<rparr>)
         else (False, w))"
    using fetchAllData_failed[of response css gt toISO clk w] catch_block[of gt "atCatch clk" w]
    by simp
  have b: "cacheUsable gt w now \<longrightarrow> cacheValid gt w now"
    by (simp add: cacheValid_iff)
  have c: "(cacheValid gt w now \<and> \<not> cacheUsable gt w now) =
      (case rotationData w of
         None \<Rightarrow> False
       | Some cached \<Rightarrow> \<not> isDataStillValid gt cached now \<and> validBy gt cached now Challenge)"
    by (auto simp: cacheValid_iff cacheUsable_def split: option.splits)
  have d: "fetchFailed response \<and>
    (cacheValid gt w (atCatch clk) \<longrightarrow> cacheUsable gt w (atCatch clk)) \<longrightarrow>
      fetchAllData css gt toISO response clk w =
        (if cacheValid gt w (atCatch clk)
         then (True, w\<lparr>isOffline := Some True,
                        alarmsOf := (alarmsOf w)(''refreshRotations'' \<mapsto> DelayInMinutes 5)\<rparr>)
         else (False, w))"
    using a cacheValid_iff[of gt w "atCatch clk"] by auto
  show ?thesis
    by (intro conjI a b c d)
qed

text \<open>
  The specification's scenario: the fetch throws, nothing is current in the cache and
  Salmon Run has a next rotation two hours ahead; and a failure with no cache at all.
\<close>

theorem stale_while_revalidate_witness:
  "fetchFailed NetworkError \<and>
   cacheUsable sampleParse (freshWorld\<lparr>rotationData := Some staleSnapshot\<rparr>) ms11 \<and>
   cacheValid sampleParse (freshWorld\<lparr>rotationData := Some staleSnapshot\<rparr>) ms11 \<and>
   fetchAllData noCss sampleParse sampleISO NetworkError sampleClock
     (freshWorld\<lparr>rotationData := Some staleSnapshot\<rparr>) =
     (True, freshWorld\<lparr>rotationData := Some staleSnapshot, isOffline := Some True,
              alarmsOf := [''refreshRotations'' \<mapsto> DelayInMinutes 5]\<rparr>) \<and>
   fetchFailed (Responded 503 None) \<and>
   \<not> cacheUsable sampleParse freshWorld ms11 \<and>
   \<not> cacheValid sampleParse freshWorld ms11 \<and>
   fetchAllData noCss sampleParse sampleISO (Responded 503 None) sampleClock freshWorld =
     (False, freshWorld)"
proof -
  let ?w = "freshWorld\<lparr>rotationData := Some staleSnapshot\<rparr>"
  have f1: "fetchFailed NetworkError" by (simp add: fetchFailed_def)
  have f2: "fetchFailed (Responded 503 None)" by (simp add: fetchFailed_def)
  have c1: "cacheUsable sampleParse ?w ms11"
    by code_simp
  have c2: "\<not> cacheValid sampleParse freshWorld ms11"
    by code_simp
  have clk: "atCatch sampleClock = ms11" by (simp add: sampleClock_def)
  have v1: "cacheValid sampleParse ?w ms11"
    using stale_while_revalidate[of NetworkError noCss sampleParse sampleISO sampleClock ?w ms11] c1
    by blast
  have u2: "\<not> cacheUsable sampleParse freshWorld ms11"
    using stale_while_revalidate[of "Responded 503 None" noCss sampleParse sampleISO sampleClock
        freshWorld ms11] c2
    by blast
  have r1: "fetchAllData noCss sampleParse sampleISO NetworkError sampleClock ?w =
     (True, freshWorld\<lparr>rotationData := Some staleSnapshot, isOffline := Some True,
              alarmsOf := [''refreshRotations'' \<mapsto> DelayInMinutes 5]\<rparr>)"
    using stale_while_revalidate[of NetworkError noCss sampleParse sampleISO sampleClock ?w ms11]
      f1 c1 v1
    by (simp add: clk freshWorld_def)
  have r2: "fetchAllData noCss sampleParse sampleISO (Responded 503 None) sampleClock freshWorld =
     (False, freshWorld)"
    using stale_while_revalidate[of "Responded 503 None" noCss sampleParse sampleISO sampleClock
        freshWorld ms11] f2 c2 u2
    by (simp add: clk)
  show ?thesis
    by (intro conjI f1 c1 v1 r1 f2 u2 c2 r2)
qed

text \<open>
  Claim C3 at a cache that the program stores. The cycle of 11:00 stores the snapshot
  of \<open>challengeFeed\<close> and arms the smart timer for 12:01. The cycle which that alarm
  starts finds the network down. Regular and Salmon Run ended at 12:00, the challenge
  runs until 12:05: the cache is valid as the specification defines it. The cycle
  returns \<^verbatim>\<open>false\<close>, leaves the offline flag at \<^verbatim>\<open>false\<close> and arms no retry timer.
\<close>

theorem stale_cache_reported_failed:
  "rotationData afterChallenge = Some challengeSnapshot \<and>
   isOffline afterChallenge = Some False \<and>
   alarmsOf afterChallenge ''smartRefresh'' = Some (When ms1201) \<and>
   alarmsOf afterChallenge ''refreshRotations'' = None \<and>
   fetchFailed NetworkError \<and>
   cacheValid sampleParse afterChallenge (atCatch laterClock) \<and>
   fst (fetchAllData noCss sampleParse sampleISO NetworkError laterClock afterChallenge) = False \<and>
   isOffline (snd (fetchAllData noCss sampleParse sampleISO NetworkError laterClock
                     afterChallenge)) = Some False \<and>
   alarmsOf (snd (fetchAllData noCss sampleParse sampleISO NetworkError laterClock
                    afterChallenge)) ''refreshRotations'' = None"
  by code_simp

subsection \<open>The cache validity check\<close>

text \<open>What the check computes: it looks at regular, anarchy, xbattle and salmon only.\<close>

lemma isDataStillValid_four_modes:
  "isDataStillValid gt snap now \<longleftrightarrow>
     (\<exists>e\<in>set (validityEndTimes snap). truthy e \<and> numGt (getTime gt e) (Some now)) \<or>
     (\<exists>v\<in>set (validityStartTimes snap). truthy v)"
  by (simp add: isDataStillValid_def list_ex_iff)

text \<open>
  Claim C4 at two snapshots. In the first the challenge rotation from 10:00 to 12:05 is
  current at 11:00 and ends after it, Regular and Salmon Run ended at 10:00 with no next
  rotation. The second is the cache that the cycle of 11:00 stores for \<open>challengeFeed\<close>,
  read at 12:01: Regular and Salmon Run ended at 12:00, the challenge runs until 12:05.
  In both some mode's current end time is after \<open>now\<close>, the snapshot is valid as the
  specification defines it, and the check returns \<^verbatim>\<open>false\<close>, so that a failed fetch is
  reported as a failure. The scheduler's list of modes has \<^verbatim>\<open>challenge\<close>; the check's
  list misses it.
\<close>

theorem isDataStillValid_misses_challenge:
  "containsNow sampleParse ms11 sampleChallenge \<and>
   currentOf (challenge challengeOnly) = Some sampleChallenge \<and>
   numGt (getTime sampleParse (endTime sampleChallenge)) (Some ms11) \<and>
   isDataStillValid sampleParse challengeOnly ms11 = False \<and>
   fst (fetchAllData noCss sampleParse sampleISO NetworkError sampleClock
          (freshWorld\<lparr>rotationData := Some challengeOnly\<rparr>)) = False \<and>
   isStillValid sampleParse challengeOnly ms11 \<and>
   rotationData (snd (fetchAllData noCss sampleParse sampleISO
                        (Responded 200 (Some challengeFeed)) sampleClock freshWorld)) =
     Some challengeSnapshot \<and>
   currentOf (challenge challengeSnapshot) = Some sampleChallenge \<and>
   numGt (getTime sampleParse (endTime sampleChallenge)) (Some ms1201) \<and>
   isStillValid sampleParse challengeSnapshot ms1201 \<and>
   isDataStillValid sampleParse challengeSnapshot ms1201 = False"
  by code_simp

subsection \<open>The notification differ\<close>

lemma isNewRotation_changed: "isNewRotation n old = rotationChanged n old"
  by (auto simp: isNewRotation_def rotationChanged_def startTimeOf_def split: option.splits)

lemma firesFor_append: "firesFor key (xs @ ys) \<longleftrightarrow> firesFor key xs \<or> firesFor key ys"
  by (auto simp: firesFor_def list_ex_iff)

lemma firesFor_Nil: "\<not> firesFor key []"
  by (simp add: firesFor_def)

lemma firesFor_notifyBattle:
  "firesFor k (notifyBattle key name enabled n old) \<longleftrightarrow>
     enabled \<and> rotationChanged n old \<and>
     prefix (''rotation-'' @ k @ ''-'') (notificationIdOf key (startTimeOf n))"
  by (auto simp: notifyBattle_def firesFor_def isNewRotation_changed startTimeOf_def
      rotationChanged_def split: option.splits)

lemma firesFor_notifySalmonRun:
  "firesFor k (notifySalmonRun enabled n old) \<longleftrightarrow>
     enabled \<and> rotationChanged n old \<and>
     prefix (''rotation-'' @ k @ ''-'') (notificationIdOf ''salmon'' (startTimeOf n))"
  by (auto simp: notifySalmonRun_def firesFor_def isNewRotation_changed startTimeOf_def
      rotationChanged_def split: option.splits)




lemma fromListed_ids:
  "fromListedMode \<lparr>notificationId = notificationIdOf ''regular'' s,
                   notificationTitle = t, notificationMessage = m\<rparr>"
  "fromListedMode \<lparr>notificationId = notificationIdOf ''anarchy'' s,
                   notificationTitle = t, notificationMessage = m\<rparr>"
  "fromListedMode \<lparr>notificationId = notificationIdOf ''xbattle'' s,
                   notificationTitle = t, notificationMessage = m\<rparr>"
  "fromListedMode \<lparr>notificationId = notificationIdOf ''salmon'' s,
                   notificationTitle = t, notificationMessage = m\<rparr>"
  by (simp_all add: fromListedMode_def notificationIdOf_def)

lemma not_challenge_ids:
  "\<not> prefix ''rotation-challenge-'' (notificationIdOf ''regular'' s)"
  "\<not> prefix ''rotation-challenge-'' (notificationIdOf ''anarchy'' s)"
  "\<not> prefix ''rotation-challenge-'' (notificationIdOf ''xbattle'' s)"
  "\<not> prefix ''rotation-challenge-'' (notificationIdOf ''salmon'' s)"
  "\<not> prefix ''rotation-splatfest-'' (notificationIdOf ''regular'' s)"
  "\<not> prefix ''rotation-splatfest-'' (notificationIdOf ''anarchy'' s)"
  "\<not> prefix ''rotation-splatfest-'' (notificationIdOf ''xbattle'' s)"
  "\<not> prefix ''rotation-splatfest-'' (notificationIdOf ''salmon'' s)"
  by (simp_all add: notificationIdOf_def)

text \<open>
  Claim C10. Every notification the differ creates carries the id of regular, anarchy,
  xbattle or salmon; none carries the id of the challenge mode or of the splatfest, and
  the notifications created do not depend on the \<^verbatim>\<open>challenge\<close> and \<^verbatim>\<open>splatfest\<close> entries
  of either snapshot.
\<close>

theorem notifications_only_listed_modes:
  "list_all fromListedMode (sendRotationNotifications st new old) \<and>
   \<not> firesFor ''challenge'' (sendRotationNotifications st new old) \<and>
   \<not> firesFor ''splatfest'' (sendRotationNotifications st new old) \<and>
   sendRotationNotifications st (new\<lparr>challenge := c, splatfest := f\<rparr>)
       (map_option (\<lambda>s. s\<lparr>challenge := c', splatfest := f'\<rparr>) old) =
     sendRotationNotifications st new old"
proof -
  have "list_all fromListedMode (sendRotationNotifications st new old)"
    by (simp add: sendRotationNotifications_def notifyBattle_def notifySalmonRun_def
        fromListed_ids split: option.splits)
  moreover have "\<not> firesFor ''challenge'' (sendRotationNotifications st new old)"
    by (simp add: sendRotationNotifications_def firesFor_append firesFor_notifyBattle
        firesFor_notifySalmonRun not_challenge_ids firesFor_Nil)
  moreover have "\<not> firesFor ''splatfest'' (sendRotationNotifications st new old)"
    by (simp add: sendRotationNotifications_def firesFor_append firesFor_notifyBattle
        firesFor_notifySalmonRun not_challenge_ids firesFor_Nil)
  moreover have "sendRotationNotifications st (new\<lparr>challenge := c, splatfest := f\<rparr>)
       (map_option (\<lambda>s. s\<lparr>challenge := c', splatfest := f'\<rparr>) old) =
     sendRotationNotifications st new old"
    by (cases old) (simp_all add: sendRotationNotifications_def oldMode_def)
  ultimately show ?thesis by simp
qed

text \<open>
  A challenge rotation appears in the new snapshot and Regular changes: the one
  notification created is Regular's.
\<close>

theorem notifications_only_listed_modes_witness:
  "sendRotationNotifications allOn
     (laterSnapshot\<lparr>challenge := Some \<lparr>current = Some sampleChallenge, nxt = None\<rparr>\<rparr>)
     (Some sampleSnapshot) =
     [\<lparr>notificationId = ''rotation-regular-2024-01-01T12:00:00.000Z'',
       notificationTitle = ''New Regular Rotation!'',
       notificationMessage = ''Mode: Turf War'' @ [CHR 0x0A] @ ''Stages: Eeltail Alley, Wahoo World''\<rparr>] \<and>
   \<not> firesFor ''challenge''
     (sendRotationNotifications allOn
        (laterSnapshot\<lparr>challenge := Some \<lparr>current = Some sampleChallenge, nxt = None\<rparr>\<rparr>)
        (Some sampleSnapshot))"
proof -
  have e: "sendRotationNotifications allOn laterSnapshot (Some sampleSnapshot) =
     [\<lparr>notificationId = ''rotation-regular-2024-01-01T12:00:00.000Z'',
       notificationTitle = ''New Regular Rotation!'',
       notificationMessage = ''Mode: Turf War'' @ [CHR 0x0A] @ ''Stages: Eeltail Alley, Wahoo World''\<rparr>]"
    by code_simp
  have u: "laterSnapshot\<lparr>challenge := Some \<lparr>current = Some sampleChallenge, nxt = None\<rparr>\<rparr> =
           laterSnapshot\<lparr>challenge := Some \<lparr>current = Some sampleChallenge, nxt = None\<rparr>,
                          splatfest := None\<rparr>"
    by code_simp
  show ?thesis
    using notifications_only_listed_modes[of allOn
        "laterSnapshot\<lparr>challenge := Some \<lparr>current = Some sampleChallenge, nxt = None\<rparr>\<rparr>"
        "Some sampleSnapshot"]
      notifications_only_listed_modes[where st = allOn and new = laterSnapshot
        and old = "Some sampleSnapshot"
        and c = "Some \<lparr>current = Some sampleChallenge, nxt = None\<rparr>"
        and f = None and c' = None and f' = None]
      e u
    by (simp add: sampleSnapshot_def noRotations_def)
qed

subsection \<open>The festival entry\<close>

lemma scanFest_find:
  "scanFest gt now ns =
     (if nullBeforeUpcoming gt now ns then Inl TypeError
      else Inr (map_option scheduledFest (List.find (upcomingFest gt now) (nonNull ns))))"
proof (induction ns)
  case Nil
  then show ?case by (simp add: nullBeforeUpcoming_def nonNull_Nil)
next
  case (Cons entry ns)
  show ?case
  proof (cases entry)
    case None
    then show ?thesis by (simp add: nullBeforeUpcoming_def isNull_simps)
  next
    case (Some node)
    have step: "scanFest gt now (entry # ns) =
                  (if upcomingFest gt now node then Inr (Some (scheduledFest node))
                   else scanFest gt now ns)"
      using Some by (simp add: upcomingFest_def scheduledFest_def)
    show ?thesis
      unfolding step Cons.IH using Some
      by (simp add: nullBeforeUpcoming_def isNull_simps nonNull_Cons)
  qed
qed

lemma mapEach_teams:
  "mapEach (mapTeam css) xs =
     (if list_ex isNull xs then Inl TypeError else Inr (map (renderTeam css) (nonNull xs)))"
  by (induction xs)
     (auto simp: mapTeam_def renderTeam_def isNull_iff nonNull_Cons nonNull_Nil
      split: option.splits)

lemma teams_mapped:
  "mapOrEmpty (mapTeam css) f =
     (if notMappable f then Inl TypeError
      else Inr (map (renderTeam css) (nonNull (listOf f))))"
  by (cases f) (simp_all add: mapOrEmpty_def notMappable_def listOf_def nonNull_Nil mapEach_teams)

lemma processSplatfestData_spec:
  "processSplatfestData css gt r now =
     (case currentFest r of
        Some f \<Rightarrow>
          (if notMappable (festTeams f) then Inl TypeError else Inr (Some (activeFest css f)))
      | None \<Rightarrow>
          (case nodesOf (festSchedules r) of
             NodesArray ns \<Rightarrow>
               (if nullBeforeUpcoming gt now ns then Inl TypeError
                else Inr (map_option scheduledFest
                            (List.find (upcomingFest gt now) (nonNull ns))))
           | NodesAbsent \<Rightarrow> Inr None
           | NodesText \<Rightarrow> Inr None
           | NodesNotArray \<Rightarrow> Inl TypeError))"
  by (simp add: processSplatfestData_def activeFest_def scanFest_find teams_mapped
      forOfOrEmpty_def forOf_def truthyNodes_def nullBeforeUpcoming_def nonNull_Nil
      split: option.splits nodesField.splits)

text \<open>
  Claim C8, as the code has it. An active festival, when the feed has one, is the result
  and the schedule is not looked at; its teams are the entries of the team list, and a
  team list that is not an array or has a \<^verbatim>\<open>null\<close> entry throws. Otherwise the result is
  the first node of the festival schedule, in feed order, that has live settings and
  starts after \<open>now\<close>, reported as \<^verbatim>\<open>SCHEDULED\<close> with no teams; it is \<^verbatim>\<open>null\<close> when there
  is no such node or no schedule; a \<^verbatim>\<open>null\<close> entry that the scan reaches throws, and so
  does a schedule whose nodes cannot be iterated.
\<close>

theorem splatfest_selection:
  "processSplatfestData css gt r now =
     (case currentFest r of
        Some f \<Rightarrow>
          (if notMappable (festTeams f) then Inl TypeError else Inr (Some (activeFest css f)))
      | None \<Rightarrow>
          (case nodesOf (festSchedules r) of
             NodesArray ns \<Rightarrow>
               (if nullBeforeUpcoming gt now ns then Inl TypeError
                else Inr (map_option scheduledFest
                            (List.find (upcomingFest gt now) (nonNull ns))))
           | NodesAbsent \<Rightarrow> Inr None
           | NodesText \<Rightarrow> Inr None
           | NodesNotArray \<Rightarrow> Inl TypeError))"
  by (rule processSplatfestData_spec)

text \<open>The three cases at sample feeds: active, scheduled, neither.\<close>

theorem splatfest_selection_witness:
  "processSplatfestData noCss sampleParse (festFeed\<lparr>currentFest := Some sampleCurrentFest\<rparr>) ms11 =
     Inr (Some \<lparr>startTime = at10, endTime = at16, title = ''Spicy vs Sweet vs Sour'',
                state = ''FIRST_HALF'', teams = []\<rparr>) \<and>
   processSplatfestData noCss sampleParse festFeed ms11 =
     Inr (Some \<lparr>startTime = at14, endTime = at16, title = ''Upcoming Splatfest'',
                state = ''SCHEDULED'', teams = []\<rparr>) \<and>
   processSplatfestData noCss sampleParse emptyRoot ms11 = Inr None"
proof -
  have a: "currentFest (festFeed\<lparr>currentFest := Some sampleCurrentFest\<rparr>) = Some sampleCurrentFest"
    by simp
  have b: "currentFest festFeed = None"
    "nodesOf (festSchedules festFeed) = NodesArray (map Some sampleFestNodes)"
    by (simp_all add: festFeed_def emptyRoot_def nodesOf_def)
  have c: "currentFest emptyRoot = None" "nodesOf (festSchedules emptyRoot) = NodesAbsent"
    by (simp_all add: emptyRoot_def nodesOf_def)
  have m: "notMappable (festTeams sampleCurrentFest) = False" by code_simp
  have n: "nullBeforeUpcoming sampleParse ms11 (map Some sampleFestNodes) = False" by code_simp
  have e1: "activeFest noCss sampleCurrentFest =
      \<lparr>startTime = at10, endTime = at16, title = ''Spicy vs Sweet vs Sour'',
                state = ''FIRST_HALF'', teams = []\<rparr>"
    by code_simp
  have e2: "map_option scheduledFest
              (List.find (upcomingFest sampleParse ms11) (nonNull (map Some sampleFestNodes))) =
      Some \<lparr>startTime = at14, endTime = at16, title = ''Upcoming Splatfest'',
                state = ''SCHEDULED'', teams = []\<rparr>"
    by code_simp
  show ?thesis
    using splatfest_selection[of noCss sampleParse "festFeed\<lparr>currentFest := Some sampleCurrentFest\<rparr>" ms11]
      splatfest_selection[of noCss sampleParse festFeed ms11]
      splatfest_selection[of noCss sampleParse emptyRoot ms11]
    by (simp only: a b c m n e1 e2 option.case nodesField.case if_False simp_thms)
qed

text \<open>
  Claim C8 as stated fails where the feed is not in ascending order: of the two upcoming
  nodes the one from 12:05 is the earliest, and the result is the one from 14:00, which
  comes first in the feed. And where the festival nodes are an object, there is neither
  an active festival nor a schedule node, and the extraction throws instead of
  returning \<^verbatim>\<open>null\<close>.
\<close>

theorem splatfest_earliest_counterexample:
  "processSplatfestData noCss sampleParse festFeed ms11 =
     Inr (Some (scheduledFest \<lparr>startTime = at14, endTime = at16, festMatchSettings = True\<rparr>)) \<and>
   earliestUpcomingFest sampleParse ms11 sampleFestNodes =
     Some \<lparr>startTime = at1205, endTime = at14, festMatchSettings = True\<rparr> \<and>
   processSplatfestData noCss sampleParse festFeed ms11 \<noteq>
     Inr (map_option scheduledFest (earliestUpcomingFest sampleParse ms11 sampleFestNodes)) \<and>
   processSplatfestData noCss sampleParse (emptyRoot\<lparr>festSchedules := Some NodesNotArray\<rparr>) ms11 =
     Inl TypeError"
  by code_simp

subsection \<open>Salmon Run never comes back empty\<close>

lemma scanSchedules_nothing:
  assumes "\<forall>s\<in>set xs. considered s \<and> \<not> containsNow gt now s \<and> \<not> startsAfter gt now s"
  shows "scanSchedules gt now xs (cur, next) = (cur, next)"
  using assms
  by (induction xs) (auto simp: containsNow_def startsAfter_def)

lemma createSalmonRunTestData_full:
  "current (createSalmonRunTestData toISO now) \<noteq> None"
  "nxt (createSalmonRunTestData toISO now) \<noteq> None"
  "startTimeOf (current (createSalmonRunTestData toISO now)) = Some (toISO now)"
  by (simp_all add: createSalmonRunTestData_def startTimeOf_def)

lemma processSalmonRunData_not_empty:
  "processSalmonRunData gt toISO d now \<noteq> Inr \<lparr>current = None, nxt = None\<rparr>"
proof -
  have t: "createSalmonRunTestData toISO now \<noteq> \<lparr>current = None, nxt = None\<rparr>"
    using createSalmonRunTestData_full(1)[of toISO now] by auto
  have s: "toState p \<noteq> \<lparr>current = None, nxt = None\<rparr>" if "\<not> (fst p = None \<and> snd p = None)"
    for p :: "salmonRotation option \<times> salmonRotation option"
    using that by (auto simp: toState_def)
  show ?thesis
    using t s
    by (auto simp: processSalmonRunData_def Let_def split: option.splits sum.splits)
qed

lemma processSalmonRunData_missing:
  "coopOf d = None \<Longrightarrow>
     processSalmonRunData gt toISO d now = Inr (createSalmonRunTestData toISO now)"
  by (simp add: processSalmonRunData_def coopOf_def)

lemma processSalmonRunData_throws:
  assumes "coopOf d = Some c"
  shows "(\<exists>e. processSalmonRunData gt toISO d now = Inl e) \<longleftrightarrow> salmonThrows c"
proof -
  have "(\<exists>e. processSalmonRunData gt toISO d now = Inl e) \<longleftrightarrow> (\<exists>e. allSchedules c = Inl e)"
    using assms
    by (auto simp: processSalmonRunData_def coopOf_def Let_def split: option.splits sum.splits)
  then show ?thesis by (simp add: allSchedules_throws)
qed

lemma same_times:
  assumes "startTime p = startTime n" and "endTime p = endTime n"
  shows "containsNow gt now p = containsNow gt now n"
    and "startsAfter gt now p = startsAfter gt now n"
  using assms
  by (simp_all add: containsNow_def startsAfter_def considered_def startMs_def endMs_def)

lemma processSalmonRunData_gap:
  assumes c: "coopOf d = Some c" and nt: "\<not> salmonThrows c"
    and n: "nothingAhead gt now (coopWindows c)"
  shows "processSalmonRunData gt toISO d now = Inr (createSalmonRunTestData toISO now)"
proof -
  obtain schedules where s: "allSchedules c = Inr schedules"
    using nt allSchedules_throws[of c] by (cases "allSchedules c") auto
  have quiet: "\<not> containsNow gt now w \<and> \<not> startsAfter gt now w"
    if "w \<in> set (coopWindows c)" for w
    using n that by (auto simp: nothingAhead_def list_ex_iff)
  have "considered p \<and> \<not> containsNow gt now p \<and> \<not> startsAfter gt now p"
    if "p \<in> set schedules" for p
  proof -
    from allSchedules_windows[OF s] that
    have cp: "considered p"
      and "\<exists>w\<in>set (coopWindows c). startTime p = startTime w \<and> endTime p = endTime w"
      by blast+
    then obtain w where w: "w \<in> set (coopWindows c)"
      and t1: "startTime p = startTime w" and t2: "endTime p = endTime w"
      by blast
    have "containsNow gt now p = containsNow gt now w"
      "startsAfter gt now p = startsAfter gt now w"
      by (rule same_times[OF t1 t2])+
    then show ?thesis
      using cp quiet[OF w] by blast
  qed
  then have "\<forall>p\<in>set (sortByStart gt schedules).
               considered p \<and> \<not> containsNow gt now p \<and> \<not> startsAfter gt now p"
    by (simp add: set_sortByStart)
  then have scan: "scanSchedules gt now (sortByStart gt schedules) (None, None) = (None, None)"
    by (rule scanSchedules_nothing)
  have "coopGroupingSchedule (the (data d)) = Some c" "data d \<noteq> None"
    using c by (auto simp: coopOf_def split: option.splits)
  then show ?thesis
    using s scan by (auto simp: processSalmonRunData_def)
qed

text \<open>
  Claim C9, as the code has it. The Salmon Run processor never returns
  \<^verbatim>\<open>{current: null, next: null}\<close>. Where the coop section is missing, the result is the
  synthetic data. Where the section is present, the processor throws exactly when one of
  its two \<^verbatim>\<open>nodes\<close> values is truthy and cannot be iterated, or a schedule with both times
  has weapons that are truthy and not an array; where it does not throw and no schedule
  window contains \<open>now\<close> or starts after it, the result is the synthetic data. The
  synthetic data has a current and a next entry, and its current window starts at the
  instant of the call.
\<close>

theorem salmon_never_empty:
  "processSalmonRunData gt toISO d now \<noteq> Inr \<lparr>current = None, nxt = None\<rparr> \<and>
   (coopOf d = None \<longrightarrow>
      processSalmonRunData gt toISO d now = Inr (createSalmonRunTestData toISO now)) \<and>
   (coopOf d = Some c \<longrightarrow>
      (\<exists>e. processSalmonRunData gt toISO d now = Inl e) = salmonThrows c) \<and>
   (coopOf d = Some c \<and> \<not> salmonThrows c \<and> nothingAhead gt now (coopWindows c) \<longrightarrow>
      processSalmonRunData gt toISO d now = Inr (createSalmonRunTestData toISO now)) \<and>
   current (createSalmonRunTestData toISO now) \<noteq> None \<and>
   nxt (createSalmonRunTestData toISO now) \<noteq> None \<and>
   startTimeOf (current (createSalmonRunTestData toISO now)) = Some (toISO now)"
  using processSalmonRunData_not_empty[of gt toISO d now]
    processSalmonRunData_missing[of d gt toISO now]
    processSalmonRunData_throws[of d c gt toISO now]
    processSalmonRunData_gap[of d c gt now toISO]
    createSalmonRunTestData_full[of toISO now]
  by blast

text \<open>
  A feed with no coop section, one whose only schedule ended at 10:00, and one whose
  regular \<^verbatim>\<open>nodes\<close> value is an object.
\<close>

theorem salmon_never_empty_witness:
  "coopOf \<lparr>data = Some emptyRoot\<rparr> = None \<and>
   processSalmonRunData sampleParse sampleISO \<lparr>data = Some emptyRoot\<rparr> ms11 =
     Inr (createSalmonRunTestData sampleISO ms11) \<and>
   coopOf (withCoop pastCoop) = Some pastCoop \<and>
   \<not> salmonThrows pastCoop \<and>
   nothingAhead sampleParse ms11 (coopWindows pastCoop) \<and>
   processSalmonRunData sampleParse sampleISO (withCoop pastCoop) ms11 =
     Inr (createSalmonRunTestData sampleISO ms11) \<and>
   coopOf (withCoop brokenCoop) = Some brokenCoop \<and>
   salmonThrows brokenCoop \<and>
   (\<exists>e. processSalmonRunData sampleParse sampleISO (withCoop brokenCoop) ms11 = Inl e) \<and>
   startTimeOf (current (createSalmonRunTestData sampleISO ms11)) = at11"
proof -
  have h1: "coopOf \<lparr>data = Some emptyRoot\<rparr> = None" by code_simp
  have h2: "coopOf (withCoop pastCoop) = Some pastCoop" by code_simp
  have h3: "\<not> salmonThrows pastCoop" by code_simp
  have h4: "nothingAhead sampleParse ms11 (coopWindows pastCoop)" by code_simp
  have h5: "coopOf (withCoop brokenCoop) = Some brokenCoop" by code_simp
  have h6: "salmonThrows brokenCoop" by code_simp
  have h7: "Some (sampleISO ms11) = at11" by code_simp
  have r1: "processSalmonRunData sampleParse sampleISO \<lparr>data = Some emptyRoot\<rparr> ms11 =
     Inr (createSalmonRunTestData sampleISO ms11)"
    using salmon_never_empty[of sampleParse sampleISO "\<lparr>data = Some emptyRoot\<rparr>" ms11] h1
    by blast
  have r2: "processSalmonRunData sampleParse sampleISO (withCoop pastCoop) ms11 =
     Inr (createSalmonRunTestData sampleISO ms11)"
    using salmon_never_empty[of sampleParse sampleISO "withCoop pastCoop" ms11 pastCoop] h2 h3 h4
    by blast
  have r3: "\<exists>e. processSalmonRunData sampleParse sampleISO (withCoop brokenCoop) ms11 = Inl e"
    using salmon_never_empty[of sampleParse sampleISO "withCoop brokenCoop" ms11 brokenCoop] h5 h6
    by blast
  have r4: "startTimeOf (current (createSalmonRunTestData sampleISO ms11)) = at11"
    using salmon_never_empty[of sampleParse sampleISO "withCoop brokenCoop" ms11 brokenCoop] h7
    by simp
  show ?thesis
    by (intro conjI h1 r1 h2 h3 h4 r2 h5 h6 r3 r4)
qed

text \<open>
  Claim C9 as stated fails where a \<^verbatim>\<open>nodes\<close> value of the coop section cannot be
  iterated. The coop section is present, its regular \<^verbatim>\<open>nodes\<close> value is an object: there
  is no schedule window at all, so none contains \<open>now\<close> and none starts after it, and
  the processor throws instead of returning the synthetic data.
\<close>

theorem salmon_throws_counterexample:
  "coopOf (withCoop brokenCoop) = Some brokenCoop \<and>
   coopWindows brokenCoop = [] \<and>
   nothingAhead sampleParse ms11 (coopWindows brokenCoop) \<and>
   processSalmonRunData sampleParse sampleISO (withCoop brokenCoop) ms11 = Inl TypeError \<and>
   processSalmonRunData sampleParse sampleISO (withCoop brokenCoop) ms11 \<noteq>
     Inr (createSalmonRunTestData sampleISO ms11)"
  by code_simp

subsection \<open>Validation and the placeholder\<close>

lemma keyOk_withoutList: "keyOk key = (\<not> withoutList key)"
  by (simp add: keyOk_def withoutList_def split: option.splits)

lemma validateApiResponse_iff:
  "validateApiResponse d =
     (case data d of None \<Rightarrow> False | Some r \<Rightarrow> \<not> battleKeyWithoutList r \<and> \<not> coopKeyWithoutList r)"
  by (auto simp: validateApiResponse_def keyOk_withoutList battleKeyWithoutList_def
      coopKeyWithoutList_def split: option.splits)

lemma sortThrows_Nil: "\<not> sortThrows []"
  by (simp add: sortThrows_def)

lemma regular_throws:
  "(\<exists>e. battleState (\<lambda>ns. findCurrentAndNext gt ns now mode) key = Inl e) \<longleftrightarrow>
     sortThrows (listOf (nodesOf key))"
proof (cases "nodesOf key")
  case (NodesArray ns)
  have "(\<exists>e. findCurrentAndNext gt ns now mode = Inl e) \<longleftrightarrow> (\<exists>e. sortNodes gt ns = Inl e)"
    unfolding findCurrentAndNext_spec by (auto split: sum.splits)
  then show ?thesis
    using NodesArray by (simp add: battleState_def listOf_def sortNodes_throws)
qed (simp_all add: battleState_def listOf_def sortThrows_Nil)

lemma anarchy_throws:
  "(\<exists>e. battleState (\<lambda>ns. findCurrentAndNextAnarchy gt ns now) key = Inl e) \<longleftrightarrow>
     sortThrows (listOf (nodesOf key))"
proof (cases "nodesOf key")
  case (NodesArray ns)
  have "(\<exists>e. findCurrentAndNextAnarchy gt ns now = Inl e) \<longleftrightarrow> (\<exists>e. sortNodes gt ns = Inl e)"
    unfolding findCurrentAndNextAnarchy_spec by (auto split: sum.splits)
  then show ?thesis
    using NodesArray by (simp add: battleState_def listOf_def sortNodes_throws)
qed (simp_all add: battleState_def listOf_def sortThrows_Nil)

lemma event_throws:
  "(\<exists>e. (if truthyNodes ev then processEventSchedules gt ev now else Inr emptyState) = Inl e) \<longleftrightarrow>
     truthyNodes ev \<and> eventsThrow ev"
  by (simp add: processEventSchedules_spec)

lemma fest_throws:
  "(\<exists>e. processSplatfestData css gt r now = Inl e) \<longleftrightarrow> festThrows gt now r"
  unfolding processSplatfestData_spec festThrows_def
  by (simp split: option.splits nodesField.splits)

lemma processRotationData_None_iff:
  "(processRotationData css gt d now = None) = processingFails gt now d"
proof (cases "data d")
  case None
  then show ?thesis
    by (simp add: processRotationData_def processingFails_def validateApiResponse_iff)
next
  case (Some r)
  show ?thesis
  proof (cases "battleKeyWithoutList r \<or> coopKeyWithoutList r")
    case True
    then show ?thesis
      using Some by (auto simp: processRotationData_def processingFails_def validateApiResponse_iff)
  next
    case False
    then have v: "validateApiResponse d"
      using Some by (simp add: validateApiResponse_iff)
    let ?reg = "battleState (\<lambda>ns. findCurrentAndNext gt ns now Regular) (regularSchedules r)"
    let ?anar = "battleState (\<lambda>ns. findCurrentAndNextAnarchy gt ns now) (bankaraSchedules r)"
    let ?xb = "battleState (\<lambda>ns. findCurrentAndNext gt ns now Xbattle) (xSchedules r)"
    let ?ev = "if truthyNodes (nodesOf (eventSchedules r))
               then processEventSchedules gt (nodesOf (eventSchedules r)) now
               else Inr emptyState"
    let ?fest = "processSplatfestData css gt r now"
    have "(processRotationData css gt d now = None) \<longleftrightarrow>
            (\<exists>e. ?reg = Inl e) \<or> (\<exists>e. ?anar = Inl e) \<or> (\<exists>e. ?xb = Inl e) \<or>
            (\<exists>e. ?ev = Inl e) \<or> (\<exists>e. ?fest = Inl e)"
      using Some v
      by (cases ?reg; cases ?anar; cases ?xb; cases ?ev; cases ?fest)
         (simp_all add: processRotationData_def)
    also have "\<dots> \<longleftrightarrow> throwsWhileProcessing gt now r"
      unfolding regular_throws anarchy_throws event_throws fest_throws
      by (simp add: throwsWhileProcessing_def)
    finally show ?thesis
      using Some False by (simp add: processingFails_def)
  qed
qed

lemma createTestData_covers: "coversBattleModes (createTestData toISO now)"
  by (simp add: coversBattleModes_def createTestData_def Let_def currentOf_def nextOf_def)

lemma missing_key_empty:
  assumes "data d = Some r" and "processRotationData css gt d now = Some s"
  shows "(regularSchedules r = None \<longrightarrow> regular s = Some emptyState) \<and>
         (bankaraSchedules r = None \<longrightarrow> anarchy s = Some emptyState) \<and>
         (xSchedules r = None \<longrightarrow> xbattle s = Some emptyState) \<and>
         (eventSchedules r = None \<longrightarrow> challenge s = Some emptyState)"
proof -
  let ?reg = "battleState (\<lambda>ns. findCurrentAndNext gt ns now Regular) (regularSchedules r)"
  let ?anar = "battleState (\<lambda>ns. findCurrentAndNextAnarchy gt ns now) (bankaraSchedules r)"
  let ?xb = "battleState (\<lambda>ns. findCurrentAndNext gt ns now Xbattle) (xSchedules r)"
  let ?ev = "if truthyNodes (nodesOf (eventSchedules r))
             then processEventSchedules gt (nodesOf (eventSchedules r)) now
             else Inr emptyState"
  have parts: "?reg = Inr (the (regular s))" "?anar = Inr (the (anarchy s))"
    "?xb = Inr (the (xbattle s))" "?ev = Inr (the (challenge s))"
    "regular s \<noteq> None" "anarchy s \<noteq> None" "xbattle s \<noteq> None" "challenge s \<noteq> None"
    using assms
    by (cases ?reg; cases ?anar; cases ?xb; cases ?ev; cases "processSplatfestData css gt r now";
        auto simp: processRotationData_def split: if_splits)+
  have e: "battleState select None = Inr emptyState"
    for select :: "'a list \<Rightarrow> jsError + 'r modeState"
    by (simp add: battleState_def nodesOf_def)
  show ?thesis
    using parts by (auto simp: e nodesOf_def truthyNodes_def)
qed

lemma fetch_substitutes:
  assumes "responseOk status"
    and "processRotationData css gt d (atProcess clk) = None"
    and "processSalmonRunData gt toISO d (atProcess clk) = Inr sd"
  shows "rotationData (snd (fetchAllData css gt toISO (Responded status (Some d)) clk w)) =
           Some ((createTestData toISO (atProcess clk))\<lparr>salmon := Some sd\<rparr>)"
  using assms by (simp add: fetchAllData_def Let_def)

lemma fetch_salmon_throws:
  assumes "responseOk status"
    and "processSalmonRunData gt toISO d (atProcess clk) = Inl e"
  shows "fetchAllData css gt toISO (Responded status (Some d)) clk w =
           onFetchError gt (atCatch clk) w"
  using assms by (simp add: fetchAllData_def Let_def)

lemma onFetchError_keeps: "rotationData (snd (onFetchError gt now w)) = rotationData w"
  by (simp add: onFetchError_def split: option.splits)

lemma processSalmonRunData_returns:
  "coopOf d = None \<Longrightarrow> \<exists>sd. processSalmonRunData gt toISO d now = Inr sd"
  by (simp add: processSalmonRunData_missing)

text \<open>
  Claim C6, as the code has it. The rotation processor returns \<^verbatim>\<open>null\<close> exactly when the
  feed lacks the root data object, or one of the three battle-schedule keys or one of
  the two coop-schedule keys is present without a list-shaped \<^verbatim>\<open>nodes\<close> collection, or
  something throws inside its \<^verbatim>\<open>try\<close>: the sort of a battle list of two or more entries
  with a \<^verbatim>\<open>null\<close> among them, the event selector (\<open>eventsThrow\<close>), or the festival
  extraction (\<open>festThrows\<close>). On that result the fetch cycle goes on with the
  placeholder, which has current and next rotations for Regular, Anarchy and X and
  nothing else from the processor. Where the Salmon Run processor returns, the
  placeholder with its result as \<^verbatim>\<open>salmon\<close> is what the cycle stores; where it throws,
  which with a coop section present is the case of \<open>salmonThrows\<close> and with none never
  happens, the cycle is its \<^verbatim>\<open>catch\<close> block and stores nothing. A schedule key that is
  merely missing yields the empty state of its mode in a result that is not \<^verbatim>\<open>null\<close>.
\<close>

theorem processor_failure:
  "(processRotationData css gt d now = None) = processingFails gt now d \<and>
   (responseOk status \<and> processRotationData css gt d (atProcess clk) = None \<and>
    processSalmonRunData gt toISO d (atProcess clk) = Inr sd \<longrightarrow>
      rotationData (snd (fetchAllData css gt toISO (Responded status (Some d)) clk w)) =
        Some ((createTestData toISO (atProcess clk))\<lparr>salmon := Some sd\<rparr>)) \<and>
   (responseOk status \<and> processSalmonRunData gt toISO d (atProcess clk) = Inl e \<longrightarrow>
      fetchAllData css gt toISO (Responded status (Some d)) clk w =
        onFetchError gt (atCatch clk) w \<and>
      rotationData (snd (fetchAllData css gt toISO (Responded status (Some d)) clk w)) =
        rotationData w) \<and>
   (coopOf d = Some c \<longrightarrow>
      (\<exists>e. processSalmonRunData gt toISO d now = Inl e) = salmonThrows c) \<and>
   (coopOf d = None \<longrightarrow> (\<exists>sd. processSalmonRunData gt toISO d now = Inr sd)) \<and>
   coversBattleModes (createTestData toISO now) \<and>
   (data d = Some r \<and> processRotationData css gt d now = Some s \<longrightarrow>
      (regularSchedules r = None \<longrightarrow> regular s = Some emptyState) \<and>
      (bankaraSchedules r = None \<longrightarrow> anarchy s = Some emptyState) \<and>
      (xSchedules r = None \<longrightarrow> xbattle s = Some emptyState) \<and>
      (eventSchedules r = None \<longrightarrow> challenge s = Some emptyState))"
proof -
  have c3: "responseOk status \<and> processSalmonRunData gt toISO d (atProcess clk) = Inl e \<longrightarrow>
      fetchAllData css gt toISO (Responded status (Some d)) clk w =
        onFetchError gt (atCatch clk) w \<and>
      rotationData (snd (fetchAllData css gt toISO (Responded status (Some d)) clk w)) =
        rotationData w"
    using fetch_salmon_throws[of status gt toISO d clk e css w]
    by (simp add: onFetchError_keeps)
  have c2: "responseOk status \<and> processRotationData css gt d (atProcess clk) = None \<and>
    processSalmonRunData gt toISO d (atProcess clk) = Inr sd \<longrightarrow>
      rotationData (snd (fetchAllData css gt toISO (Responded status (Some d)) clk w)) =
        Some ((createTestData toISO (atProcess clk))\<lparr>salmon := Some sd\<rparr>)"
    using fetch_substitutes[of status css gt d clk toISO sd w] by blast
  have c4: "coopOf d = Some c \<longrightarrow>
      (\<exists>e. processSalmonRunData gt toISO d now = Inl e) = salmonThrows c"
    using processSalmonRunData_throws[of d c gt toISO now] by blast
  have c5: "coopOf d = None \<longrightarrow> (\<exists>sd. processSalmonRunData gt toISO d now = Inr sd)"
    using processSalmonRunData_returns[of d gt toISO now] by blast
  have c7: "data d = Some r \<and> processRotationData css gt d now = Some s \<longrightarrow>
      (regularSchedules r = None \<longrightarrow> regular s = Some emptyState) \<and>
      (bankaraSchedules r = None \<longrightarrow> anarchy s = Some emptyState) \<and>
      (xSchedules r = None \<longrightarrow> xbattle s = Some emptyState) \<and>
      (eventSchedules r = None \<longrightarrow> challenge s = Some emptyState)"
    using missing_key_empty[of d r css gt now s] by blast
  show ?thesis
    by (intro conjI processRotationData_None_iff c2 c3 c4 c5 createTestData_covers c7)
qed

text \<open>
  A feed whose X schedule has no array of nodes fails and is replaced by the
  placeholder, with the synthetic Salmon Run data as the feed has no coop section; a
  feed whose coop section has a \<^verbatim>\<open>nodes\<close> value that is an object fails, the Salmon Run
  processor throws on it, and nothing is stored; a feed with the Regular schedule only
  is processed, and its Anarchy state is empty; so is every state of the feed with no
  key at all.
\<close>

theorem processor_failure_witness:
  "processingFails sampleParse ms11 brokenFeed \<and>
   processRotationData noCss sampleParse brokenFeed ms11 = None \<and>
   responseOk 200 \<and>
   coopOf brokenFeed = None \<and>
   processSalmonRunData sampleParse sampleISO brokenFeed ms11 =
     Inr (createSalmonRunTestData sampleISO ms11) \<and>
   rotationData (snd (fetchAllData noCss sampleParse sampleISO (Responded 200 (Some brokenFeed))
                        sampleClock freshWorld)) =
     Some ((createTestData sampleISO ms11)
             \<lparr>salmon := Some (createSalmonRunTestData sampleISO ms11)\<rparr>) \<and>
   processingFails sampleParse ms11 (withCoop brokenCoop) \<and>
   coopOf (withCoop brokenCoop) = Some brokenCoop \<and>
   salmonThrows brokenCoop \<and>
   processSalmonRunData sampleParse sampleISO (withCoop brokenCoop) ms11 = Inl TypeError \<and>
   fetchAllData noCss sampleParse sampleISO (Responded 200 (Some (withCoop brokenCoop)))
     sampleClock freshWorld = onFetchError sampleParse ms11 freshWorld \<and>
   rotationData (snd (fetchAllData noCss sampleParse sampleISO
                        (Responded 200 (Some (withCoop brokenCoop))) sampleClock freshWorld)) =
     None \<and>
   \<not> processingFails sampleParse ms11 sampleFeed \<and>
   processRotationData noCss sampleParse sampleFeed ms11 \<noteq> None \<and>
   bankaraSchedules (the (data sampleFeed)) = None \<and>
   anarchy (the (processRotationData noCss sampleParse sampleFeed ms11)) = Some emptyState \<and>
   \<not> processingFails sampleParse ms11 \<lparr>data = Some emptyRoot\<rparr> \<and>
   regular (the (processRotationData noCss sampleParse \<lparr>data = Some emptyRoot\<rparr> ms11)) =
     Some emptyState \<and>
   xbattle (the (processRotationData noCss sampleParse \<lparr>data = Some emptyRoot\<rparr> ms11)) =
     Some emptyState \<and>
   challenge (the (processRotationData noCss sampleParse \<lparr>data = Some emptyRoot\<rparr> ms11)) =
     Some emptyState"
proof -
  let ?bc = "withCoop brokenCoop"
  let ?er = "\<lparr>data = Some emptyRoot\<rparr>"
  have b1: "processingFails sampleParse ms11 brokenFeed" by code_simp
  have b2: "responseOk 200" by code_simp
  have b3: "coopOf brokenFeed = None" by code_simp
  have b4: "atProcess sampleClock = ms11" "atCatch sampleClock = ms11"
    by (simp_all add: sampleClock_def)
  have b5: "processSalmonRunData sampleParse sampleISO brokenFeed ms11 =
     Inr (createSalmonRunTestData sampleISO ms11)" by code_simp
  have k1: "processingFails sampleParse ms11 ?bc" by code_simp
  have k2: "coopOf ?bc = Some brokenCoop" by code_simp
  have k3: "salmonThrows brokenCoop" by code_simp
  have k4: "rotationData freshWorld = None" by (simp add: freshWorld_def)
  have s1: "\<not> processingFails sampleParse ms11 sampleFeed" by code_simp
  have s2: "data sampleFeed = Some (the (data sampleFeed))" by (simp add: sampleFeed_def)
  have s3: "bankaraSchedules (the (data sampleFeed)) = None" by code_simp
  have e1: "\<not> processingFails sampleParse ms11 ?er" by code_simp
  have e2: "regularSchedules emptyRoot = None" "xSchedules emptyRoot = None"
    "eventSchedules emptyRoot = None"
    by (simp_all add: emptyRoot_def)
  have none: "processRotationData noCss sampleParse brokenFeed ms11 = None"
    using processor_failure[of noCss sampleParse brokenFeed ms11] b1 by simp
  have sub: "rotationData (snd (fetchAllData noCss sampleParse sampleISO (Responded 200 (Some brokenFeed))
                        sampleClock freshWorld)) =
     Some ((createTestData sampleISO ms11)
             \<lparr>salmon := Some (createSalmonRunTestData sampleISO ms11)\<rparr>)"
    using processor_failure[where css = noCss and gt = sampleParse and d = brokenFeed
        and now = ms11 and status = 200 and clk = sampleClock and toISO = sampleISO
        and sd = "createSalmonRunTestData sampleISO ms11" and w = freshWorld] b2 b5 b4 none
    by simp
  have thr: "\<exists>e. processSalmonRunData sampleParse sampleISO ?bc ms11 = Inl e"
    using processor_failure[where gt = sampleParse and d = ?bc and now = ms11
        and toISO = sampleISO and c = brokenCoop] k2 k3
    by blast
  then have thr': "processSalmonRunData sampleParse sampleISO ?bc ms11 = Inl TypeError"
    using jsError_only by metis
  have cat: "fetchAllData noCss sampleParse sampleISO (Responded 200 (Some ?bc))
               sampleClock freshWorld = onFetchError sampleParse ms11 freshWorld \<and>
             rotationData (snd (fetchAllData noCss sampleParse sampleISO
                        (Responded 200 (Some ?bc)) sampleClock freshWorld)) = None"
    using processor_failure[where css = noCss and gt = sampleParse and d = ?bc
        and status = 200 and clk = sampleClock and toISO = sampleISO
        and now = ms11 and e = TypeError and w = freshWorld] b2 b4 thr' k4
    by (simp add: onFetchError_keeps)
  have some: "processRotationData noCss sampleParse sampleFeed ms11 \<noteq> None"
    using processor_failure[of noCss sampleParse sampleFeed ms11] s1 by simp
  then have s4: "processRotationData noCss sampleParse sampleFeed ms11 =
      Some (the (processRotationData noCss sampleParse sampleFeed ms11))"
    by simp
  have emp: "anarchy (the (processRotationData noCss sampleParse sampleFeed ms11)) = Some emptyState"
    using processor_failure[where css = noCss and gt = sampleParse and d = sampleFeed
        and now = ms11 and r = "the (data sampleFeed)"
        and s = "the (processRotationData noCss sampleParse sampleFeed ms11)"] s2 s3 s4
    by blast
  have "processRotationData noCss sampleParse ?er ms11 \<noteq> None"
    using processor_failure[of noCss sampleParse ?er ms11] e1 by simp
  then have e4: "processRotationData noCss sampleParse ?er ms11 =
      Some (the (processRotationData noCss sampleParse ?er ms11))"
    by simp
  have e3: "data ?er = Some emptyRoot" by simp
  have all: "regular (the (processRotationData noCss sampleParse ?er ms11)) = Some emptyState \<and>
             xbattle (the (processRotationData noCss sampleParse ?er ms11)) = Some emptyState \<and>
             challenge (the (processRotationData noCss sampleParse ?er ms11)) = Some emptyState"
    using processor_failure[where css = noCss and gt = sampleParse and d = ?er
        and now = ms11 and r = emptyRoot
        and s = "the (processRotationData noCss sampleParse ?er ms11)"] e2 e3 e4
    by blast
  show ?thesis
    using b1 none b2 b3 b5 sub k1 k2 k3 thr' cat s1 some s3 emp e1 all
    by (simp add: onFetchError_keeps k4)
qed

text \<open>
  Claim C6 as stated fails. Each of these feeds has its root object and no battle-schedule
  key without a list of nodes, and the processor returns \<^verbatim>\<open>null\<close>: the first has a coop
  key with no \<^verbatim>\<open>nodes\<close>, which the validation also covers; the second has the Regular
  nodes \<^verbatim>\<open>[null, null]\<close>, on which the sort throws; the third has a coop key whose
  \<^verbatim>\<open>nodes\<close> value is an object, and for it the caller does not substitute the placeholder:
  the Salmon Run processor throws, the cycle returns \<^verbatim>\<open>false\<close> and stores nothing.
\<close>

theorem processor_failure_counterexample:
  "\<not> claimedFailure coopKeyFeed \<and>
   processRotationData noCss sampleParse coopKeyFeed ms11 = None \<and>
   \<not> claimedFailure nullNodesFeed \<and>
   processRotationData noCss sampleParse nullNodesFeed ms11 = None \<and>
   \<not> claimedFailure (withCoop brokenCoop) \<and>
   processRotationData noCss sampleParse (withCoop brokenCoop) ms11 = None \<and>
   fst (fetchAllData noCss sampleParse sampleISO (Responded 200 (Some (withCoop brokenCoop)))
          sampleClock freshWorld) = False \<and>
   rotationData (snd (fetchAllData noCss sampleParse sampleISO
                        (Responded 200 (Some (withCoop brokenCoop))) sampleClock freshWorld)) =
     None"
  by code_simp

subsection \<open>The two timers\<close>

lemma smart_rearmed:
  "scheduleNextRefresh gt snap now al ''smartRefresh'' =
     scheduleNextRefresh gt snap now Map.empty ''smartRefresh''"
  by (simp add: scheduleNextRefresh_def Let_def split: option.splits)

lemma fallback_or_left:
  "scheduleNextRefresh gt snap now al ''refreshRotations'' =
     (if scheduleNextRefresh gt snap now al ''smartRefresh'' = None
      then Some (DelayInMinutes 30) else al ''refreshRotations'')"
  by (simp add: scheduleNextRefresh_def Let_def REFRESH_INTERVAL_def split: option.splits)

lemma other_names_kept:
  "name \<noteq> ''smartRefresh'' \<Longrightarrow> name \<noteq> ''refreshRotations'' \<Longrightarrow>
     scheduleNextRefresh gt snap now al name = al name"
  by (simp add: scheduleNextRefresh_def Let_def split: option.splits)

lemma failure_alarms:
  "fetchFailed response \<Longrightarrow>
     alarmsOf (snd (fetchAllData css gt toISO response clk w)) =
       (if cacheUsable gt w (atCatch clk)
        then (alarmsOf w)(''refreshRotations'' \<mapsto> DelayInMinutes 5)
        else alarmsOf w)"
  by (simp add: fetchAllData_failed onFetchError_def cacheUsable_def split: option.splits)

lemma salmon_throw_alarms:
  assumes "responseOk status" and "processSalmonRunData gt toISO d (atProcess clk) = Inl e"
  shows "alarmsOf (snd (fetchAllData css gt toISO (Responded status (Some d)) clk w)) =
           (if cacheUsable gt w (atCatch clk)
            then (alarmsOf w)(''refreshRotations'' \<mapsto> DelayInMinutes 5)
            else alarmsOf w)"
  using assms
  by (simp add: fetchAllData_def Let_def onFetchError_def cacheUsable_def split: option.splits)

lemma success_alarms:
  assumes "responseOk status" and "processSalmonRunData gt toISO d (atProcess clk) = Inr sd"
  shows "alarmsOf (snd (fetchAllData css gt toISO (Responded status (Some d)) clk w)) =
           scheduleNextRefresh gt
             (the (rotationData (snd (fetchAllData css gt toISO (Responded status (Some d)) clk w))))
             (atSchedule clk) (alarmsOf w)"
  using assms by (simp add: fetchAllData_def Let_def split: option.splits)

text \<open>
  Claim C7, as the code has it. The scheduler clears the smart timer whatever was armed
  and then arms one of the two names: either the smart timer, and then it leaves
  \<^verbatim>\<open>refreshRotations\<close> as it was, or the 30-minute fallback under \<^verbatim>\<open>refreshRotations\<close>;
  it touches no other name. A cycle that succeeds changes the alarms by the scheduler
  only. A cycle whose fetch fails arms \<^verbatim>\<open>refreshRotations\<close> for 5 minutes when the cache
  is usable and changes no alarm otherwise: it never clears the smart timer; a cycle in
  which the Salmon Run processor throws does the same. Each name holds at most one
  alarm, but nothing keeps the two names from being armed together.
\<close>

theorem timers_per_name:
  "scheduleNextRefresh gt snap now al ''smartRefresh'' =
     scheduleNextRefresh gt snap now Map.empty ''smartRefresh'' \<and>
   scheduleNextRefresh gt snap now al ''refreshRotations'' =
     (if scheduleNextRefresh gt snap now al ''smartRefresh'' = None
      then Some (DelayInMinutes 30) else al ''refreshRotations'') \<and>
   (name \<noteq> ''smartRefresh'' \<and> name \<noteq> ''refreshRotations'' \<longrightarrow>
      scheduleNextRefresh gt snap now al name = al name) \<and>
   (responseOk status \<and> processSalmonRunData gt toISO d (atProcess clk) = Inr sd \<longrightarrow>
      alarmsOf (snd (fetchAllData css gt toISO (Responded status (Some d)) clk w)) =
        scheduleNextRefresh gt
          (the (rotationData (snd (fetchAllData css gt toISO (Responded status (Some d)) clk w))))
          (atSchedule clk) (alarmsOf w)) \<and>
   (fetchFailed response \<longrightarrow>
      alarmsOf (snd (fetchAllData css gt toISO response clk w)) =
        (if cacheUsable gt w (atCatch clk)
         then (alarmsOf w)(''refreshRotations'' \<mapsto> DelayInMinutes 5)
         else alarmsOf w)) \<and>
   (responseOk status \<and> processSalmonRunData gt toISO d (atProcess clk) = Inl e \<longrightarrow>
      alarmsOf (snd (fetchAllData css gt toISO (Responded status (Some d)) clk w)) =
        (if cacheUsable gt w (atCatch clk)
         then (alarmsOf w)(''refreshRotations'' \<mapsto> DelayInMinutes 5)
         else alarmsOf w))"
  using smart_rearmed[of gt snap now al] fallback_or_left[of gt snap now al]
    other_names_kept[of name gt snap now al]
    success_alarms[of status gt toISO d clk sd css w]
    failure_alarms[of response css gt toISO clk w]
    salmon_throw_alarms[of status gt toISO d clk e css w]
  by blast

text \<open>The theorem at the sample cycles.\<close>

theorem timers_per_name_witness:
  "scheduleNextRefresh sampleParse sampleSnapshot ms11 [''keepAlive'' \<mapsto> When 1] ''keepAlive'' =
     Some (When 1) \<and>
   responseOk 200 \<and>
   processSalmonRunData sampleParse sampleISO sampleFeed (atProcess sampleClock) =
     Inr (createSalmonRunTestData sampleISO ms11) \<and>
   alarmsOf afterSuccess =
     scheduleNextRefresh sampleParse (the (rotationData afterSuccess)) ms11 Map.empty \<and>
   fetchFailed NetworkError \<and>
   cacheUsable sampleParse afterSuccess ms11 \<and>
   alarmsOf afterFailure = (alarmsOf afterSuccess)(''refreshRotations'' \<mapsto> DelayInMinutes 5) \<and>
   processSalmonRunData sampleParse sampleISO (withCoop brokenCoop) (atProcess sampleClock) =
     Inl TypeError \<and>
   alarmsOf (snd (fetchAllData noCss sampleParse sampleISO
                    (Responded 200 (Some (withCoop brokenCoop))) sampleClock afterSuccess)) =
     (alarmsOf afterSuccess)(''refreshRotations'' \<mapsto> DelayInMinutes 5)"
proof -
  have n: "''keepAlive'' \<noteq> ''smartRefresh'' \<and> ''keepAlive'' \<noteq> ''refreshRotations''"
    by simp
  have k: "scheduleNextRefresh sampleParse sampleSnapshot ms11 [''keepAlive'' \<mapsto> When 1] ''keepAlive'' =
     Some (When 1)"
    using timers_per_name[of sampleParse sampleSnapshot ms11 "[''keepAlive'' \<mapsto> When 1]"
        "''keepAlive''"] n
    by simp
  have ok: "responseOk 200" by code_simp
  have sal: "processSalmonRunData sampleParse sampleISO sampleFeed (atProcess sampleClock) =
     Inr (createSalmonRunTestData sampleISO ms11)" by code_simp
  have clk: "atSchedule sampleClock = ms11" "atCatch sampleClock = ms11"
    by (simp_all add: sampleClock_def)
  have fresh: "alarmsOf freshWorld = Map.empty" by (simp add: freshWorld_def)
  have ff: "fetchFailed NetworkError" by (simp add: fetchFailed_def)
  have cu: "cacheUsable sampleParse afterSuccess ms11" by code_simp
  have s: "alarmsOf afterSuccess =
     scheduleNextRefresh sampleParse (the (rotationData afterSuccess)) ms11 Map.empty"
    using timers_per_name[where gt = sampleParse and status = 200 and toISO = sampleISO
        and d = sampleFeed and clk = sampleClock
        and sd = "createSalmonRunTestData sampleISO ms11" and css = noCss and w = freshWorld]
      ok sal
    by (simp add: afterSuccess_def clk fresh)
  have f: "alarmsOf afterFailure = (alarmsOf afterSuccess)(''refreshRotations'' \<mapsto> DelayInMinutes 5)"
    using timers_per_name[where gt = sampleParse and response = NetworkError
        and toISO = sampleISO and clk = sampleClock and css = noCss and w = afterSuccess]
      ff cu
    by (simp add: afterFailure_def clk)
  have thr: "processSalmonRunData sampleParse sampleISO (withCoop brokenCoop)
               (atProcess sampleClock) = Inl TypeError" by code_simp
  have g: "alarmsOf (snd (fetchAllData noCss sampleParse sampleISO
                    (Responded 200 (Some (withCoop brokenCoop))) sampleClock afterSuccess)) =
     (alarmsOf afterSuccess)(''refreshRotations'' \<mapsto> DelayInMinutes 5)"
    using timers_per_name[where gt = sampleParse and status = 200 and toISO = sampleISO
        and d = "withCoop brokenCoop" and clk = sampleClock and e = TypeError
        and css = noCss and w = afterSuccess]
      ok thr cu
    by (simp add: clk)
  show ?thesis
    using k ok sal s ff cu f thr g by simp
qed

text \<open>
  Claim C7 as stated fails. After a cycle that succeeds the smart timer is armed for
  12:01. A cycle started by the popup at 11:00 whose fetch throws arms the retry timer
  and leaves the smart timer pending: both are armed. One more successful cycle arms the
  smart timer again and leaves the retry timer pending.
\<close>

theorem both_timers_armed:
  "alarmsOf afterSuccess ''smartRefresh'' = Some (When 1704110460000) \<and>
   alarmsOf afterSuccess ''refreshRotations'' = None \<and>
   alarmsOf afterFailure ''smartRefresh'' = Some (When 1704110460000) \<and>
   alarmsOf afterFailure ''refreshRotations'' = Some (DelayInMinutes 5) \<and>
   alarmsOf afterRetry ''smartRefresh'' = Some (When 1704110460000) \<and>
   alarmsOf afterRetry ''refreshRotations'' = Some (DelayInMinutes 5)"
  by code_simp

end
